theory Spec2Isabelle
  imports Main
begin

section \<open>Outcomes of a call\<close>

text \<open>
  Objects on the free store are named by an address, threads by a number. A call of the
  library is made by a thread; it either returns, throws a C++ exception
  (\<^verbatim>\<open>std::out_of_range\<close> from the library's own checks,
  \<^verbatim>\<open>std::system_error\<close> from the standard mutex), blocks the calling thread
  (the call cannot return in the current state), aborts on a failed
  \<^verbatim>\<open>assert\<close>, or has undefined behaviour (for instance a member access through
  a null \<^verbatim>\<open>std::shared_ptr\<close>).
\<close>

type_synonym addr = nat

type_synonym thread = nat

datatype exn = out_of_range | system_error

datatype 'r result = Returns 'r | Throws exn | Blocks | Aborts | Undefined

definition and_then :: "'r result \<Rightarrow> ('r \<Rightarrow> 's result) \<Rightarrow> 's result" where
  "and_then r f =
     (case r of Returns x \<Rightarrow> f x | Throws e \<Rightarrow> Throws e | Blocks \<Rightarrow> Blocks
      | Aborts \<Rightarrow> Aborts | Undefined \<Rightarrow> Undefined)"

section \<open>The standard library objects used by mseasyncshared.h\<close>

subsection \<open>std::shared_timed_mutex\<close>

text \<open>
  The mutex is owned exclusively by one thread, or shared by a number of owners, or by
  nobody. Its member functions are called by a thread (the first argument).
  \<^verbatim>\<open>lock()\<close> returns only when nobody holds the mutex,
  \<^verbatim>\<open>lock_shared()\<close> only when no thread holds it exclusively; until then a
  caller that is not the exclusive owner blocks.

  The standard requires of \<^verbatim>\<open>lock()\<close> and \<^verbatim>\<open>lock_shared()\<close> that
  the calling thread does not own the mutex, and of \<^verbatim>\<open>unlock()\<close> that the
  calling thread owns it; it names the error \<^verbatim>\<open>resource_deadlock_would_occur\<close>
  for a deadlock that the implementation detects, and leaves the behaviour undefined
  otherwise. For the calls that break these requirements the model follows libstdc++ on a
  POSIX read-write lock, which records the thread that holds the write side and counts the
  holders of the read side:
  \<^item> \<^verbatim>\<open>lock()\<close> and \<^verbatim>\<open>lock_shared()\<close> by the thread that holds the
    mutex exclusively throw \<^verbatim>\<open>std::system_error\<close>
    (\<^verbatim>\<open>resource_deadlock_would_occur\<close>);
  \<^item> \<^verbatim>\<open>lock()\<close> by a thread that holds the read side waits for the read side to
    be released, as every other caller does;
  \<^item> \<^verbatim>\<open>unlock()\<close> by a thread other than the exclusive owner returns and leaves
    the mutex owned as it was;
  \<^item> \<^verbatim>\<open>unlock_shared()\<close> takes one holder off the read side, whichever thread
    calls it.
\<close>

record shared_timed_mutex =
  exclusive_owner :: "thread option"
  shared_owners :: nat

definition shared_timed_mutex_init :: shared_timed_mutex where
  "shared_timed_mutex_init = \<lparr>exclusive_owner = None, shared_owners = 0\<rparr>"

definition lock :: "thread \<Rightarrow> shared_timed_mutex \<Rightarrow> shared_timed_mutex result" where
  "lock t m =
     (if exclusive_owner m = Some t then Throws system_error
      else if exclusive_owner m \<noteq> None \<or> 0 < shared_owners m then Blocks
      else Returns (m\<lparr>exclusive_owner := Some t\<rparr>))"

definition unlock :: "thread \<Rightarrow> shared_timed_mutex \<Rightarrow> shared_timed_mutex" where
  "unlock t m = (if exclusive_owner m = Some t then m\<lparr>exclusive_owner := None\<rparr> else m)"

definition lock_shared :: "thread \<Rightarrow> shared_timed_mutex \<Rightarrow> shared_timed_mutex result" where
  "lock_shared t m =
     (if exclusive_owner m = Some t then Throws system_error
      else if exclusive_owner m \<noteq> None then Blocks
      else Returns (m\<lparr>shared_owners := Suc (shared_owners m)\<rparr>))"

definition unlock_shared :: "thread \<Rightarrow> shared_timed_mutex \<Rightarrow> shared_timed_mutex" where
  "unlock_shared t m = m\<lparr>shared_owners := shared_owners m - 1\<rparr>"

subsection \<open>TAsyncSharedObj and the free store\<close>

text \<open>
  \<^verbatim>\<open>TAsyncSharedObj<_TROy>\<close> derives from the payload type and adds the member
  \<^verbatim>\<open>m_mutex1\<close>. The free store keeps, for every address, the object that lives
  there (if any), the use count of the \<^verbatim>\<open>std::shared_ptr\<close> control block, and the
  log of the \<^verbatim>\<open>delete\<close> calls made so far. Addresses are handed out in
  increasing order and name the object for good.
\<close>

record 'a TAsyncSharedObj =
  base :: 'a
  m_mutex1 :: shared_timed_mutex

record 'a heap =
  objs :: "addr \<rightharpoonup> 'a TAsyncSharedObj"
  use_count :: "addr \<Rightarrow> nat"
  deleted :: "addr list"
  next_addr :: addr

subsection \<open>std::shared_ptr\<close>

text \<open>
  A \<^verbatim>\<open>std::shared_ptr\<close> is null (\<open>None\<close>) or shares ownership of the object at
  an address. Copying a non-null pointer increments the use count; destroying one
  decrements it and deletes the object when the count reaches zero; moving transfers
  the pointer and leaves the source null.
\<close>

definition shared_ptr_new :: "'a TAsyncSharedObj \<Rightarrow> 'a heap \<Rightarrow> addr option \<times> 'a heap" where
  "shared_ptr_new ob h =
     (let a = next_addr h
      in (Some a, h\<lparr>objs := (objs h)(a \<mapsto> ob), use_count := (use_count h)(a := 1),
                     next_addr := Suc a\<rparr>))"

definition shared_ptr_copy :: "addr option \<Rightarrow> 'a heap \<Rightarrow> 'a heap" where
  "shared_ptr_copy sp h =
     (case sp of None \<Rightarrow> h
      | Some a \<Rightarrow> h\<lparr>use_count := (use_count h)(a := Suc (use_count h a))\<rparr>)"

definition shared_ptr_dtor :: "addr option \<Rightarrow> 'a heap \<Rightarrow> 'a heap" where
  "shared_ptr_dtor sp h =
     (case sp of None \<Rightarrow> h
      | Some a \<Rightarrow>
          (let n = use_count h a - 1
           in if n = 0
              then h\<lparr>objs := (objs h)(a := None), use_count := (use_count h)(a := 0),
                     deleted := a # deleted h\<rparr>
              else h\<lparr>use_count := (use_count h)(a := n)\<rparr>))"

definition shared_ptr_move :: "addr option \<Rightarrow> addr option \<times> addr option" where
  "shared_ptr_move sp = (sp, None)"

subsection \<open>std::unique_lock and std::shared_lock\<close>

text \<open>
  A lock object holds a pointer to its mutex and the flag that says whether it owns the
  lock. The mutex of a cell is a member of the cell, so it is named by the cell's
  address. The constructor from a mutex calls \<^verbatim>\<open>lock()\<close>, respectively
  \<^verbatim>\<open>lock_shared()\<close>, in the constructing thread; the destructor calls
  \<^verbatim>\<open>unlock()\<close>, respectively \<^verbatim>\<open>unlock_shared()\<close>, in the
  destroying thread when the flag is set; the move constructor transfers both members and
  leaves the source with no mutex.
\<close>

datatype unique_lock = unique_lock (upm: "addr option") (uowns: bool)

datatype shared_lock = shared_lock (spm: "addr option") (sowns: bool)

definition unique_lock_ctor ::
    "thread \<Rightarrow> addr \<Rightarrow> 'a heap \<Rightarrow> (unique_lock \<times> 'a heap) result" where
  "unique_lock_ctor t a h =
     (case objs h a of None \<Rightarrow> Undefined
      | Some ob \<Rightarrow>
          and_then (lock t (m_mutex1 ob))
            (\<lambda>m. Returns (unique_lock (Some a) True,
                           h\<lparr>objs := (objs h)(a \<mapsto> ob\<lparr>m_mutex1 := m\<rparr>)\<rparr>)))"

definition unique_lock_dtor :: "thread \<Rightarrow> unique_lock \<Rightarrow> 'a heap \<Rightarrow> 'a heap result" where
  "unique_lock_dtor t l h =
     (if uowns l
      then (case upm l of None \<Rightarrow> Undefined
            | Some a \<Rightarrow>
                (case objs h a of None \<Rightarrow> Undefined
                 | Some ob \<Rightarrow>
                     Returns (h\<lparr>objs := (objs h)(a \<mapsto>
                                ob\<lparr>m_mutex1 := unlock t (m_mutex1 ob)\<rparr>)\<rparr>)))
      else Returns h)"

definition unique_lock_move :: "unique_lock \<Rightarrow> unique_lock \<times> unique_lock" where
  "unique_lock_move l = (l, unique_lock None False)"

definition shared_lock_ctor ::
    "thread \<Rightarrow> addr \<Rightarrow> 'a heap \<Rightarrow> (shared_lock \<times> 'a heap) result" where
  "shared_lock_ctor t a h =
     (case objs h a of None \<Rightarrow> Undefined
      | Some ob \<Rightarrow>
          and_then (lock_shared t (m_mutex1 ob))
            (\<lambda>m. Returns (shared_lock (Some a) True,
                           h\<lparr>objs := (objs h)(a \<mapsto> ob\<lparr>m_mutex1 := m\<rparr>)\<rparr>)))"

definition shared_lock_dtor :: "thread \<Rightarrow> shared_lock \<Rightarrow> 'a heap \<Rightarrow> 'a heap result" where
  "shared_lock_dtor t l h =
     (if sowns l
      then (case spm l of None \<Rightarrow> Undefined
            | Some a \<Rightarrow>
                (case objs h a of None \<Rightarrow> Undefined
                 | Some ob \<Rightarrow>
                     Returns (h\<lparr>objs := (objs h)(a \<mapsto>
                                ob\<lparr>m_mutex1 := unlock_shared t (m_mutex1 ob)\<rparr>)\<rparr>)))
      else Returns h)"

definition shared_lock_move :: "shared_lock \<Rightarrow> shared_lock \<times> shared_lock" where
  "shared_lock_move l = (l, shared_lock None False)"

section \<open>The pointer proxies of mseasyncshared.h\<close>

text \<open>
  One constructor per proxy class, with the class's data members in declaration order:
  \<^verbatim>\<open>m_shptr\<close>, then the lock member the class declares
  (\<^verbatim>\<open>m_unique_lock\<close>, \<^verbatim>\<open>m_shared_lock\<close>, or none: the last class has its
  lock member commented out).
\<close>

datatype proxy =
    TAsyncSharedPointer "addr option" unique_lock
  | TAsyncSharedConstPointer "addr option" unique_lock
  | TAsyncSharedImmutableConstPointer "addr option" unique_lock
  | TAsyncSharedSimpleObjectYouAreSureHasNoMutableMembersPointer "addr option" unique_lock
  | TAsyncSharedSimpleObjectYouAreSureHasNoMutableMembersConstPointer "addr option" shared_lock
  | TAsyncSharedSimpleObjectYouAreSureHasNoMutableMembersImmutableConstPointer "addr option"

fun m_shptr :: "proxy \<Rightarrow> addr option" where
  "m_shptr (TAsyncSharedPointer sp l) = sp"
| "m_shptr (TAsyncSharedConstPointer sp l) = sp"
| "m_shptr (TAsyncSharedImmutableConstPointer sp l) = sp"
| "m_shptr (TAsyncSharedSimpleObjectYouAreSureHasNoMutableMembersPointer sp l) = sp"
| "m_shptr (TAsyncSharedSimpleObjectYouAreSureHasNoMutableMembersConstPointer sp l) = sp"
| "m_shptr (TAsyncSharedSimpleObjectYouAreSureHasNoMutableMembersImmutableConstPointer sp) = sp"

fun m_unique_lock :: "proxy \<Rightarrow> unique_lock option" where
  "m_unique_lock (TAsyncSharedPointer sp l) = Some l"
| "m_unique_lock (TAsyncSharedConstPointer sp l) = Some l"
| "m_unique_lock (TAsyncSharedImmutableConstPointer sp l) = Some l"
| "m_unique_lock (TAsyncSharedSimpleObjectYouAreSureHasNoMutableMembersPointer sp l) = Some l"
| "m_unique_lock (TAsyncSharedSimpleObjectYouAreSureHasNoMutableMembersConstPointer sp l) = None"
| "m_unique_lock (TAsyncSharedSimpleObjectYouAreSureHasNoMutableMembersImmutableConstPointer sp) = None"

fun m_shared_lock :: "proxy \<Rightarrow> shared_lock option" where
  "m_shared_lock (TAsyncSharedSimpleObjectYouAreSureHasNoMutableMembersConstPointer sp l) = Some l"
| "m_shared_lock p = None"

text \<open>
  The public members. All six classes define them with the same bodies:
  \<^verbatim>\<open>is_valid\<close> and \<^verbatim>\<open>operator bool\<close> return
  \<^verbatim>\<open>m_shptr.operator bool()\<close>; \<^verbatim>\<open>operator*\<close> and
  \<^verbatim>\<open>operator->\<close> throw \<^verbatim>\<open>std::out_of_range\<close> when
  \<^verbatim>\<open>is_valid()\<close> is false and otherwise return the reference
  \<^verbatim>\<open>*m_shptr\<close>, respectively its address. A reference and a pointer to the
  cell are both its address here.
\<close>

definition is_valid :: "proxy \<Rightarrow> bool" where
  "is_valid p = (m_shptr p \<noteq> None)"

definition operator_bool :: "proxy \<Rightarrow> bool result" where
  "operator_bool p = Returns (m_shptr p \<noteq> None)"

definition operator_deref :: "proxy \<Rightarrow> addr result" where
  "operator_deref p =
     (if \<not> is_valid p then Throws out_of_range
      else (case m_shptr p of None \<Rightarrow> Undefined | Some a \<Rightarrow> Returns a))"

definition operator_arrow :: "proxy \<Rightarrow> addr result" where
  "operator_arrow p =
     (if \<not> is_valid p then Throws out_of_range
      else (case m_shptr p of None \<Rightarrow> Undefined | Some a \<Rightarrow> Returns a))"

text \<open>
  The defaulted move constructor moves member by member. The result is the pair of the
  new object and the source as the move leaves it.
\<close>

fun move_ctor :: "proxy \<Rightarrow> proxy \<times> proxy" where
  "move_ctor (TAsyncSharedPointer sp l) =
     (TAsyncSharedPointer (fst (shared_ptr_move sp)) (fst (unique_lock_move l)),
      TAsyncSharedPointer (snd (shared_ptr_move sp)) (snd (unique_lock_move l)))"
| "move_ctor (TAsyncSharedConstPointer sp l) =
     (TAsyncSharedConstPointer (fst (shared_ptr_move sp)) (fst (unique_lock_move l)),
      TAsyncSharedConstPointer (snd (shared_ptr_move sp)) (snd (unique_lock_move l)))"
| "move_ctor (TAsyncSharedImmutableConstPointer sp l) =
     (TAsyncSharedImmutableConstPointer (fst (shared_ptr_move sp)) (fst (unique_lock_move l)),
      TAsyncSharedImmutableConstPointer (snd (shared_ptr_move sp)) (snd (unique_lock_move l)))"
| "move_ctor (TAsyncSharedSimpleObjectYouAreSureHasNoMutableMembersPointer sp l) =
     (TAsyncSharedSimpleObjectYouAreSureHasNoMutableMembersPointer
        (fst (shared_ptr_move sp)) (fst (unique_lock_move l)),
      TAsyncSharedSimpleObjectYouAreSureHasNoMutableMembersPointer
        (snd (shared_ptr_move sp)) (snd (unique_lock_move l)))"
| "move_ctor (TAsyncSharedSimpleObjectYouAreSureHasNoMutableMembersConstPointer sp l) =
     (TAsyncSharedSimpleObjectYouAreSureHasNoMutableMembersConstPointer
        (fst (shared_ptr_move sp)) (fst (shared_lock_move l)),
      TAsyncSharedSimpleObjectYouAreSureHasNoMutableMembersConstPointer
        (snd (shared_ptr_move sp)) (snd (shared_lock_move l)))"
| "move_ctor (TAsyncSharedSimpleObjectYouAreSureHasNoMutableMembersImmutableConstPointer sp) =
     (TAsyncSharedSimpleObjectYouAreSureHasNoMutableMembersImmutableConstPointer
        (fst (shared_ptr_move sp)),
      TAsyncSharedSimpleObjectYouAreSureHasNoMutableMembersImmutableConstPointer
        (snd (shared_ptr_move sp)))"

text \<open>
  Of the other special member functions every proxy class declares the copy assignment
  and the move assignment operator \<^verbatim>\<open>= delete\<close>, and none declares a copy
  constructor: the class declares a move constructor, so its implicit copy constructor is
  defined as deleted. Move construction is the one way to make a proxy from a proxy; a use
  of a deleted member is not a program (\<open>None\<close>).
\<close>

datatype special_member =
  copy_constructor | move_constructor | copy_assignment | move_assignment

fun proxy_special_member :: "special_member \<Rightarrow> proxy \<Rightarrow> (proxy \<times> proxy) option" where
  "proxy_special_member move_constructor src = Some (move_ctor src)"
| "proxy_special_member copy_constructor src = None"
| "proxy_special_member copy_assignment src = None"
| "proxy_special_member move_assignment src = None"

text \<open>
  The destructors have empty bodies; the members are destroyed in reverse declaration
  order, the lock member first, then \<^verbatim>\<open>m_shptr\<close>. The first argument is the
  thread in which the proxy is destroyed.
\<close>

fun dtor :: "thread \<Rightarrow> proxy \<Rightarrow> 'a heap \<Rightarrow> 'a heap result" where
  "dtor t (TAsyncSharedPointer sp l) h =
     and_then (unique_lock_dtor t l h) (\<lambda>h1. Returns (shared_ptr_dtor sp h1))"
| "dtor t (TAsyncSharedConstPointer sp l) h =
     and_then (unique_lock_dtor t l h) (\<lambda>h1. Returns (shared_ptr_dtor sp h1))"
| "dtor t (TAsyncSharedImmutableConstPointer sp l) h =
     and_then (unique_lock_dtor t l h) (\<lambda>h1. Returns (shared_ptr_dtor sp h1))"
| "dtor t (TAsyncSharedSimpleObjectYouAreSureHasNoMutableMembersPointer sp l) h =
     and_then (unique_lock_dtor t l h) (\<lambda>h1. Returns (shared_ptr_dtor sp h1))"
| "dtor t (TAsyncSharedSimpleObjectYouAreSureHasNoMutableMembersConstPointer sp l) h =
     and_then (shared_lock_dtor t l h) (\<lambda>h1. Returns (shared_ptr_dtor sp h1))"
| "dtor t (TAsyncSharedSimpleObjectYouAreSureHasNoMutableMembersImmutableConstPointer sp) h =
     Returns (shared_ptr_dtor sp h)"

text \<open>
  The private constructors, called by the requesters only. The member initialisers run
  in declaration order: \<^verbatim>\<open>m_shptr(shptr)\<close> copies the argument, then the lock
  member is constructed from \<^verbatim>\<open>shptr->m_mutex1\<close>. The first argument is the
  thread that makes the call.
\<close>

definition TAsyncSharedPointer_ctor ::
    "thread \<Rightarrow> addr option \<Rightarrow> 'a heap \<Rightarrow> (proxy \<times> 'a heap) result" where
  "TAsyncSharedPointer_ctor t shptr h =
     (let h1 = shared_ptr_copy shptr h
      in case shptr of None \<Rightarrow> Undefined
         | Some a \<Rightarrow>
             and_then (unique_lock_ctor t a h1)
               (\<lambda>(l, h2). Returns (TAsyncSharedPointer shptr l, h2)))"

definition TAsyncSharedConstPointer_ctor ::
    "thread \<Rightarrow> addr option \<Rightarrow> 'a heap \<Rightarrow> (proxy \<times> 'a heap) result" where
  "TAsyncSharedConstPointer_ctor t shptr h =
     (let h1 = shared_ptr_copy shptr h
      in case shptr of None \<Rightarrow> Undefined
         | Some a \<Rightarrow>
             and_then (unique_lock_ctor t a h1)
               (\<lambda>(l, h2). Returns (TAsyncSharedConstPointer shptr l, h2)))"

definition TAsyncSharedImmutableConstPointer_ctor ::
    "thread \<Rightarrow> addr option \<Rightarrow> 'a heap \<Rightarrow> (proxy \<times> 'a heap) result" where
  "TAsyncSharedImmutableConstPointer_ctor t shptr h =
     (let h1 = shared_ptr_copy shptr h
      in case shptr of None \<Rightarrow> Undefined
         | Some a \<Rightarrow>
             and_then (unique_lock_ctor t a h1)
               (\<lambda>(l, h2). Returns (TAsyncSharedImmutableConstPointer shptr l, h2)))"

definition TAsyncSharedSimpleObjectYouAreSureHasNoMutableMembersPointer_ctor ::
    "thread \<Rightarrow> addr option \<Rightarrow> 'a heap \<Rightarrow> (proxy \<times> 'a heap) result" where
  "TAsyncSharedSimpleObjectYouAreSureHasNoMutableMembersPointer_ctor t shptr h =
     (let h1 = shared_ptr_copy shptr h
      in case shptr of None \<Rightarrow> Undefined
         | Some a \<Rightarrow>
             and_then (unique_lock_ctor t a h1)
               (\<lambda>(l, h2).
                  Returns (TAsyncSharedSimpleObjectYouAreSureHasNoMutableMembersPointer shptr l, h2)))"

definition TAsyncSharedSimpleObjectYouAreSureHasNoMutableMembersConstPointer_ctor ::
    "thread \<Rightarrow> addr option \<Rightarrow> 'a heap \<Rightarrow> (proxy \<times> 'a heap) result" where
  "TAsyncSharedSimpleObjectYouAreSureHasNoMutableMembersConstPointer_ctor t shptr h =
     (let h1 = shared_ptr_copy shptr h
      in case shptr of None \<Rightarrow> Undefined
         | Some a \<Rightarrow>
             and_then (shared_lock_ctor t a h1)
               (\<lambda>(l, h2).
                  Returns (TAsyncSharedSimpleObjectYouAreSureHasNoMutableMembersConstPointer shptr l,
                           h2)))"

definition TAsyncSharedSimpleObjectYouAreSureHasNoMutableMembersImmutableConstPointer_ctor ::
    "thread \<Rightarrow> addr option \<Rightarrow> 'a heap \<Rightarrow> (proxy \<times> 'a heap) result" where
  "TAsyncSharedSimpleObjectYouAreSureHasNoMutableMembersImmutableConstPointer_ctor t shptr h =
     (let h1 = shared_ptr_copy shptr h
      in Returns (TAsyncSharedSimpleObjectYouAreSureHasNoMutableMembersImmutableConstPointer shptr,
                  h1))"

section \<open>The access requesters and the factories\<close>

text \<open>
  One constructor per requester class; each has the single data member
  \<^verbatim>\<open>m_shptr\<close>. (\<^verbatim>\<open>TAsyncSharedImmutableAccessRequester\<close> also names a
  base class \<^verbatim>\<open>TSaferPtr\<close>, declared outside these files; no member function of
  the requester uses the base subobject, so it is left out.)
\<close>

datatype requester =
    TAsyncSharedAccessRequester "addr option"
  | TAsyncSharedImmutableAccessRequester "addr option"
  | TAsyncSharedSimpleObjectYouAreSureHasNoMutableMembersAccessRequester "addr option"
  | TAsyncSharedSimpleObjectYouAreSureHasNoMutableMembersImmutableAccessRequester "addr option"

fun requester_m_shptr :: "requester \<Rightarrow> addr option" where
  "requester_m_shptr (TAsyncSharedAccessRequester sp) = sp"
| "requester_m_shptr (TAsyncSharedImmutableAccessRequester sp) = sp"
| "requester_m_shptr (TAsyncSharedSimpleObjectYouAreSureHasNoMutableMembersAccessRequester sp) = sp"
| "requester_m_shptr (TAsyncSharedSimpleObjectYouAreSureHasNoMutableMembersImmutableAccessRequester sp) = sp"

text \<open>
  The private constructors \<^verbatim>\<open>(std::shared_ptr<...> shptr) : m_shptr(shptr) {}\<close>,
  the defaulted copy constructor and the implicit destructor.
\<close>

definition TAsyncSharedAccessRequester_ctor :: "addr option \<Rightarrow> 'a heap \<Rightarrow> requester \<times> 'a heap" where
  "TAsyncSharedAccessRequester_ctor shptr h =
     (TAsyncSharedAccessRequester shptr, shared_ptr_copy shptr h)"

definition TAsyncSharedImmutableAccessRequester_ctor ::
    "addr option \<Rightarrow> 'a heap \<Rightarrow> requester \<times> 'a heap" where
  "TAsyncSharedImmutableAccessRequester_ctor shptr h =
     (TAsyncSharedImmutableAccessRequester shptr, shared_ptr_copy shptr h)"

definition TAsyncSharedSimpleObjectYouAreSureHasNoMutableMembersAccessRequester_ctor ::
    "addr option \<Rightarrow> 'a heap \<Rightarrow> requester \<times> 'a heap" where
  "TAsyncSharedSimpleObjectYouAreSureHasNoMutableMembersAccessRequester_ctor shptr h =
     (TAsyncSharedSimpleObjectYouAreSureHasNoMutableMembersAccessRequester shptr, shared_ptr_copy shptr h)"

definition TAsyncSharedSimpleObjectYouAreSureHasNoMutableMembersImmutableAccessRequester_ctor ::
    "addr option \<Rightarrow> 'a heap \<Rightarrow> requester \<times> 'a heap" where
  "TAsyncSharedSimpleObjectYouAreSureHasNoMutableMembersImmutableAccessRequester_ctor shptr h =
     (TAsyncSharedSimpleObjectYouAreSureHasNoMutableMembersImmutableAccessRequester shptr, shared_ptr_copy shptr h)"

definition requester_copy_ctor :: "requester \<Rightarrow> 'a heap \<Rightarrow> requester \<times> 'a heap" where
  "requester_copy_ctor src h = (src, shared_ptr_copy (requester_m_shptr src) h)"

definition requester_dtor :: "requester \<Rightarrow> 'a heap \<Rightarrow> 'a heap" where
  "requester_dtor r h = shared_ptr_dtor (requester_m_shptr r) h"

text \<open>
  The implicit copy assignment of a requester assigns \<^verbatim>\<open>m_shptr\<close>: the
  \<^verbatim>\<open>std::shared_ptr\<close> takes a share of the right-hand side's object and then gives
  up its share of the object it had. The object on the left then has the value of the one
  on the right.
\<close>

definition requester_copy_assign :: "requester \<Rightarrow> requester \<Rightarrow> 'a heap \<Rightarrow> 'a heap" where
  "requester_copy_assign this src h =
     shared_ptr_dtor (requester_m_shptr this) (shared_ptr_copy (requester_m_shptr src) h)"

text \<open>
  The factories: \<^verbatim>\<open>std::shared_ptr<...> shptr(new TAsyncSharedObj<_Ty>(args...));\<close>
  then the requester \<^verbatim>\<open>retval(shptr)\<close> (the constructor takes its argument by
  value: a copy that dies after the call), \<^verbatim>\<open>return retval\<close>, and the local
  \<^verbatim>\<open>shptr\<close> goes out of scope.
\<close>

definition make_asyncshared :: "'a \<Rightarrow> 'a heap \<Rightarrow> requester \<times> 'a heap" where
  "make_asyncshared args h =
     (let (shptr, h1) = shared_ptr_new \<lparr>base = args, m_mutex1 = shared_timed_mutex_init\<rparr> h;
          h2 = shared_ptr_copy shptr h1;
          (retval, h3) = TAsyncSharedAccessRequester_ctor shptr h2;
          h4 = shared_ptr_dtor shptr h3;
          h5 = shared_ptr_dtor shptr h4
      in (retval, h5))"

definition make_asyncsharedimmutable :: "'a \<Rightarrow> 'a heap \<Rightarrow> requester \<times> 'a heap" where
  "make_asyncsharedimmutable args h =
     (let (shptr, h1) = shared_ptr_new \<lparr>base = args, m_mutex1 = shared_timed_mutex_init\<rparr> h;
          h2 = shared_ptr_copy shptr h1;
          (retval, h3) = TAsyncSharedImmutableAccessRequester_ctor shptr h2;
          h4 = shared_ptr_dtor shptr h3;
          h5 = shared_ptr_dtor shptr h4
      in (retval, h5))"

definition make_asyncsharedsimpleobjectyouaresurehasnomutablemembers ::
    "'a \<Rightarrow> 'a heap \<Rightarrow> requester \<times> 'a heap" where
  "make_asyncsharedsimpleobjectyouaresurehasnomutablemembers args h =
     (let (shptr, h1) = shared_ptr_new \<lparr>base = args, m_mutex1 = shared_timed_mutex_init\<rparr> h;
          h2 = shared_ptr_copy shptr h1;
          (retval, h3) = TAsyncSharedSimpleObjectYouAreSureHasNoMutableMembersAccessRequester_ctor shptr h2;
          h4 = shared_ptr_dtor shptr h3;
          h5 = shared_ptr_dtor shptr h4
      in (retval, h5))"

definition make_asyncsharedsimpleobjectyouaresurehasnomutablemembersimmutable ::
    "'a \<Rightarrow> 'a heap \<Rightarrow> requester \<times> 'a heap" where
  "make_asyncsharedsimpleobjectyouaresurehasnomutablemembersimmutable args h =
     (let (shptr, h1) = shared_ptr_new \<lparr>base = args, m_mutex1 = shared_timed_mutex_init\<rparr> h;
          h2 = shared_ptr_copy shptr h1;
          (retval, h3) = TAsyncSharedSimpleObjectYouAreSureHasNoMutableMembersImmutableAccessRequester_ctor shptr h2;
          h4 = shared_ptr_dtor shptr h3;
          h5 = shared_ptr_dtor shptr h4
      in (retval, h5))"

text \<open>
  The member functions \<^verbatim>\<open>ptr()\<close> and \<^verbatim>\<open>const_ptr()\<close>:
  \<^verbatim>\<open>return Proxy<_Ty>(m_shptr);\<close>. The proxy's constructor takes the pointer by
  value, so the argument is a copy that is destroyed when the constructor has returned.
  A call to a member function the class does not declare is not a program
  (\<open>None\<close>). The first argument is the calling thread.
\<close>

definition by_value ::
    "(addr option \<Rightarrow> 'a heap \<Rightarrow> (proxy \<times> 'a heap) result) \<Rightarrow> addr option \<Rightarrow> 'a heap \<Rightarrow>
     (proxy \<times> 'a heap) result" where
  "by_value ctor sp h =
     and_then (ctor sp (shared_ptr_copy sp h)) (\<lambda>(p, h1). Returns (p, shared_ptr_dtor sp h1))"

datatype member_function = ptr | const_ptr

fun call ::
    "thread \<Rightarrow> requester \<Rightarrow> member_function \<Rightarrow> 'a heap \<Rightarrow> (proxy \<times> 'a heap) result option" where
  "call t (TAsyncSharedAccessRequester sp) ptr h =
     Some (by_value (TAsyncSharedPointer_ctor t) sp h)"
| "call t (TAsyncSharedAccessRequester sp) const_ptr h =
     Some (by_value (TAsyncSharedConstPointer_ctor t) sp h)"
| "call t (TAsyncSharedImmutableAccessRequester sp) ptr h = None"
| "call t (TAsyncSharedImmutableAccessRequester sp) const_ptr h =
     Some (by_value (TAsyncSharedImmutableConstPointer_ctor t) sp h)"
| "call t (TAsyncSharedSimpleObjectYouAreSureHasNoMutableMembersAccessRequester sp) ptr h =
     Some (by_value (TAsyncSharedSimpleObjectYouAreSureHasNoMutableMembersPointer_ctor t) sp h)"
| "call t (TAsyncSharedSimpleObjectYouAreSureHasNoMutableMembersAccessRequester sp) const_ptr h =
     Some (by_value (TAsyncSharedSimpleObjectYouAreSureHasNoMutableMembersConstPointer_ctor t) sp h)"
| "call t (TAsyncSharedSimpleObjectYouAreSureHasNoMutableMembersImmutableAccessRequester sp) ptr h = None"
| "call t (TAsyncSharedSimpleObjectYouAreSureHasNoMutableMembersImmutableAccessRequester sp) const_ptr h =
     Some (by_value (TAsyncSharedSimpleObjectYouAreSureHasNoMutableMembersImmutableConstPointer_ctor t) sp h)"

section \<open>Programs over the library\<close>

text \<open>
  A state of a program is the free store together with the requester objects and the
  proxy objects that are alive, in whichever threads. A program is a sequence of calls
  into the library, the interleaving of the calls of all its threads: a factory call,
  the copy of a live requester, the assignment of a live requester to another of the same
  class, the destruction of a live requester, a call of
  \<^verbatim>\<open>ptr()\<close> or \<^verbatim>\<open>const_ptr()\<close> on a live requester by a thread, the
  use of a special member function of a live proxy (of which only move construction is
  not deleted), and the destruction of a live proxy by a thread. A requester or a proxy
  may be used by any thread, not only by the one that made it. The other constructors of
  the proxies are private. A step is possible (\<open>Some\<close>) when the call returns. A call of
  \<^verbatim>\<open>ptr()\<close> or \<^verbatim>\<open>const_ptr()\<close> that throws leaves the state as it was:
  the exception leaves the proxy's constructor after \<^verbatim>\<open>m_shptr\<close> has been
  initialised, so \<^verbatim>\<open>m_shptr\<close> and the argument are destroyed again and the use
  count is what it was before the call.
\<close>

record 'a state =
  heap :: "'a heap"
  requesters :: "requester list"
  proxies :: "proxy list"

datatype 'a api_call =
    Make_asyncshared 'a
  | Make_asyncsharedimmutable 'a
  | Make_asyncsharedsimpleobjectyouaresurehasnomutablemembers 'a
  | Make_asyncsharedsimpleobjectyouaresurehasnomutablemembersimmutable 'a
  | Copy_requester requester
  | Assign_requester requester requester
  | Destroy_requester requester
  | Call thread requester member_function
  | Special_member special_member proxy
  | Destroy_proxy thread proxy

fun same_class :: "requester \<Rightarrow> requester \<Rightarrow> bool" where
  "same_class (TAsyncSharedAccessRequester x) (TAsyncSharedAccessRequester y) = True"
| "same_class (TAsyncSharedImmutableAccessRequester x) (TAsyncSharedImmutableAccessRequester y) =
     True"
| "same_class (TAsyncSharedSimpleObjectYouAreSureHasNoMutableMembersAccessRequester x) (TAsyncSharedSimpleObjectYouAreSureHasNoMutableMembersAccessRequester y) = True"
| "same_class (TAsyncSharedSimpleObjectYouAreSureHasNoMutableMembersImmutableAccessRequester x) (TAsyncSharedSimpleObjectYouAreSureHasNoMutableMembersImmutableAccessRequester y) = True"
| "same_class r r' = False"

definition add_requester :: "'a state \<Rightarrow> requester \<times> 'a heap \<Rightarrow> 'a state" where
  "add_requester s rh = s\<lparr>heap := snd rh, requesters := fst rh # requesters s\<rparr>"

fun step :: "'a api_call \<Rightarrow> 'a state \<Rightarrow> 'a state option" where
  "step (Make_asyncshared v) s = Some (add_requester s (make_asyncshared v (heap s)))"
| "step (Make_asyncsharedimmutable v) s =
     Some (add_requester s (make_asyncsharedimmutable v (heap s)))"
| "step (Make_asyncsharedsimpleobjectyouaresurehasnomutablemembers v) s =
     Some (add_requester s
       (make_asyncsharedsimpleobjectyouaresurehasnomutablemembers v (heap s)))"
| "step (Make_asyncsharedsimpleobjectyouaresurehasnomutablemembersimmutable v) s =
     Some (add_requester s
       (make_asyncsharedsimpleobjectyouaresurehasnomutablemembersimmutable v (heap s)))"
| "step (Copy_requester r) s =
     (if r \<in> set (requesters s) then Some (add_requester s (requester_copy_ctor r (heap s)))
      else None)"
| "step (Assign_requester dst src) s =
     (if dst \<in> set (requesters s) \<and> src \<in> set (requesters s) \<and> same_class dst src
      then Some (s\<lparr>heap := requester_copy_assign dst src (heap s),
                   requesters := remove1 dst (src # requesters s)\<rparr>)
      else None)"
| "step (Destroy_requester r) s =
     (if r \<in> set (requesters s)
      then Some (s\<lparr>heap := requester_dtor r (heap s), requesters := remove1 r (requesters s)\<rparr>)
      else None)"
| "step (Call t r f) s =
     (if r \<in> set (requesters s)
      then (case call t r f (heap s) of
              Some (Returns (p, h)) \<Rightarrow> Some (s\<lparr>heap := h, proxies := p # proxies s\<rparr>)
            | _ \<Rightarrow> None)
      else None)"
| "step (Special_member m p) s =
     (if p \<in> set (proxies s)
      then (case proxy_special_member m p of
              Some (new, src) \<Rightarrow> Some (s\<lparr>proxies := new # src # remove1 p (proxies s)\<rparr>)
            | None \<Rightarrow> None)
      else None)"
| "step (Destroy_proxy t p) s =
     (if p \<in> set (proxies s)
      then (case dtor t p (heap s) of
              Returns h \<Rightarrow> Some (s\<lparr>heap := h, proxies := remove1 p (proxies s)\<rparr>)
            | _ \<Rightarrow> None)
      else None)"

fun run :: "'a api_call list \<Rightarrow> 'a state \<Rightarrow> 'a state option" where
  "run [] s = Some s"
| "run (c # cs) s = (case step c s of None \<Rightarrow> None | Some s' \<Rightarrow> run cs s')"

definition init :: "'a state" where
  "init = \<lparr>heap = \<lparr>objs = Map.empty, use_count = (\<lambda>a. 0), deleted = [], next_addr = 0\<rparr>,
           requesters = [], proxies = []\<rparr>"

text \<open>
  Which proxy classes give mutable access: the return type of \<^verbatim>\<open>operator*\<close> is
  \<^verbatim>\<open>TAsyncSharedObj<_Ty>&\<close> in the two \<^verbatim>\<open>...Pointer\<close> classes and
  \<^verbatim>\<open>const _Ty&\<close> in the four \<^verbatim>\<open>...ConstPointer\<close> classes.
\<close>

fun grants_mutable_access :: "proxy \<Rightarrow> bool" where
  "grants_mutable_access (TAsyncSharedPointer sp l) = True"
| "grants_mutable_access (TAsyncSharedConstPointer sp l) = False"
| "grants_mutable_access (TAsyncSharedImmutableConstPointer sp l) = False"
| "grants_mutable_access (TAsyncSharedSimpleObjectYouAreSureHasNoMutableMembersPointer sp l) = True"
| "grants_mutable_access (TAsyncSharedSimpleObjectYouAreSureHasNoMutableMembersConstPointer sp l) = False"
| "grants_mutable_access (TAsyncSharedSimpleObjectYouAreSureHasNoMutableMembersImmutableConstPointer sp) = False"

section \<open>What a state says about a cell\<close>

text \<open>
  A proxy holds the write side of the cell at \<open>a\<close> when its
  \<^verbatim>\<open>m_unique_lock\<close> owns the mutex of \<open>a\<close>, and the read side when its
  \<^verbatim>\<open>m_shared_lock\<close> does.
\<close>

definition holds_exclusive :: "proxy \<Rightarrow> addr \<Rightarrow> bool" where
  "holds_exclusive p a =
     (case m_unique_lock p of None \<Rightarrow> False | Some l \<Rightarrow> uowns l \<and> upm l = Some a)"

definition holds_shared :: "proxy \<Rightarrow> addr \<Rightarrow> bool" where
  "holds_shared p a =
     (case m_shared_lock p of None \<Rightarrow> False | Some l \<Rightarrow> sowns l \<and> spm l = Some a)"

definition exclusive_holders :: "'a state \<Rightarrow> addr \<Rightarrow> nat" where
  "exclusive_holders s a = length (filter (\<lambda>p. holds_exclusive p a) (proxies s))"

definition shared_holders :: "'a state \<Rightarrow> addr \<Rightarrow> nat" where
  "shared_holders s a = length (filter (\<lambda>p. holds_shared p a) (proxies s))"

definition requester_refs :: "'a state \<Rightarrow> addr \<Rightarrow> nat" where
  "requester_refs s a = length (filter (\<lambda>r. requester_m_shptr r = Some a) (requesters s))"

definition proxy_refs :: "'a state \<Rightarrow> addr \<Rightarrow> nat" where
  "proxy_refs s a = length (filter (\<lambda>p. m_shptr p = Some a) (proxies s))"

definition refs :: "'a state \<Rightarrow> addr \<Rightarrow> nat" where
  "refs s a = requester_refs s a + proxy_refs s a"

text \<open>
  A proxy is either as its constructor made it (it references a cell and its lock member
  owns that cell's mutex) or as a move left it (null pointer, lock member without mutex).
\<close>

definition proxy_ok :: "proxy \<Rightarrow> bool" where
  "proxy_ok p =
     ((case m_unique_lock p of None \<Rightarrow> True
       | Some l \<Rightarrow> upm l = m_shptr p \<and> uowns l = (m_shptr p \<noteq> None)) \<and>
      (case m_shared_lock p of None \<Rightarrow> True
       | Some l \<Rightarrow> spm l = m_shptr p \<and> sowns l = (m_shptr p \<noteq> None)))"

text \<open>
  The invariant of a cell: the use count is the number of live requesters and proxies
  that reference it; the object is on the free store exactly while that number is not
  zero; it has been deleted once when it was allocated and nothing references it any
  more, and never otherwise; at most one proxy holds the write side of its mutex, and
  none does unless a thread owns the mutex exclusively; the read side of the mutex has as
  many holders as there are proxies that hold it; and the mutex is not owned exclusively
  and shared at once. (The mutex may be owned exclusively with no
  proxy that holds it: after the holder has been destroyed by a thread that was not the
  owner.)
\<close>

definition cell_ok :: "'a state \<Rightarrow> addr \<Rightarrow> bool" where
  "cell_ok s a =
     (use_count (heap s) a = refs s a \<and>
      (objs (heap s) a = None) = (refs s a = 0) \<and>
      count_list (deleted (heap s)) a =
        (if a < next_addr (heap s) \<and> refs s a = 0 then 1 else 0) \<and>
      (next_addr (heap s) \<le> a \<longrightarrow> refs s a = 0) \<and>
      (case objs (heap s) a of None \<Rightarrow> True
       | Some ob \<Rightarrow>
           exclusive_holders s a \<le> 1 \<and>
           (exclusive_owner (m_mutex1 ob) = None \<longrightarrow> exclusive_holders s a = 0) \<and>
           shared_holders s a = shared_owners (m_mutex1 ob) \<and>
           (0 < shared_owners (m_mutex1 ob) \<longrightarrow> exclusive_owner (m_mutex1 ob) = None)))"

definition state_ok :: "'a state \<Rightarrow> bool" where
  "state_ok s =
     ((\<forall>r \<in> set (requesters s). requester_m_shptr r \<noteq> None) \<and>
      (\<forall>p \<in> set (proxies s). proxy_ok p) \<and>
      (\<forall>a. cell_ok s a))"

text \<open>
  Everything that references the cell at \<open>a\<close> belongs to the classes of the immutable
  factory \<^verbatim>\<open>make_asyncsharedimmutable\<close>.
\<close>

definition immutable_only :: "'a state \<Rightarrow> addr \<Rightarrow> bool" where
  "immutable_only s a =
     (a < next_addr (heap s) \<and>
      (\<forall>r \<in> set (requesters s).
         requester_m_shptr r = Some a \<longrightarrow>
           (case r of TAsyncSharedImmutableAccessRequester sp \<Rightarrow> True | _ \<Rightarrow> False)) \<and>
      (\<forall>p \<in> set (proxies s).
         m_shptr p = Some a \<longrightarrow>
           (case p of TAsyncSharedImmutableConstPointer sp l \<Rightarrow> True | _ \<Rightarrow> False)))"

section \<open>TRefCountedPointer (mserefcounted.h)\<close>

text \<open>
  \<^verbatim>\<open>TRefWithTargetObj<Y>\<close> derives from \<^verbatim>\<open>CRefCounter\<close> (the member
  \<^verbatim>\<open>int m_counter\<close>) and holds the target object. The counter is an
  \<^verbatim>\<open>int\<close>, taken to be 32 bits wide: \<^verbatim>\<open>increment()\<close> at
  \<^verbatim>\<open>INT_MAX\<close> overflows, which is undefined behaviour.
  \<^verbatim>\<open>decrement()\<close> asserts \<^verbatim>\<open>0 <= m_counter\<close> first, so it does not
  overflow when it returns.
\<close>

record 'x TRefWithTargetObj =
  m_counter :: int
  m_object :: 'x

type_synonym 'x target_store = "addr \<rightharpoonup> 'x TRefWithTargetObj"

definition INT_MAX :: int where
  "INT_MAX = 2147483647"

definition increment :: "'x TRefWithTargetObj \<Rightarrow> 'x TRefWithTargetObj result" where
  "increment c =
     (if m_counter c = INT_MAX then Undefined else Returns (c\<lparr>m_counter := m_counter c + 1\<rparr>))"

definition decrement :: "'x TRefWithTargetObj \<Rightarrow> 'x TRefWithTargetObj result" where
  "decrement c = (if 0 \<le> m_counter c then Returns (c\<lparr>m_counter := m_counter c - 1\<rparr>) else Aborts)"

datatype TRefCountedPointer = TRefCountedPointer (m_ref_with_target_obj_ptr: "addr option")

definition TRefCountedPointer_default_ctor :: TRefCountedPointer where
  "TRefCountedPointer_default_ctor = TRefCountedPointer None"

definition TRefCountedPointer_nullptr_ctor :: TRefCountedPointer where
  "TRefCountedPointer_nullptr_ctor = TRefCountedPointer None"

definition acquire ::
    "addr option \<Rightarrow> 'x target_store \<Rightarrow> (TRefCountedPointer \<times> 'x target_store) result" where
  "acquire c st =
     (case c of None \<Rightarrow> Returns (TRefCountedPointer c, st)
      | Some a \<Rightarrow>
          (case st a of None \<Rightarrow> Undefined
           | Some t \<Rightarrow>
               and_then (increment t) (\<lambda>t'. Returns (TRefCountedPointer c, st(a \<mapsto> t')))))"

definition dorelease :: "addr option \<Rightarrow> 'x target_store \<Rightarrow> 'x target_store result" where
  "dorelease ref_with_target_obj_ptr st =
     (case ref_with_target_obj_ptr of None \<Rightarrow> Returns st
      | Some a \<Rightarrow>
          (case st a of None \<Rightarrow> Undefined
           | Some t \<Rightarrow>
               if 1 = m_counter t then Returns (st(a := None))
               else and_then (decrement t) (\<lambda>t'. Returns (st(a \<mapsto> t')))))"

definition release :: "TRefCountedPointer \<Rightarrow> 'x target_store \<Rightarrow> 'x target_store result" where
  "release this st = dorelease (m_ref_with_target_obj_ptr this) st"

text \<open>
  \<^verbatim>\<open>operator=\<close>: unless the right-hand side is the object itself
  (\<open>same_object\<close>), \<^verbatim>\<open>auto_release keep(m_ref_with_target_obj_ptr)\<close> remembers the
  old target, \<^verbatim>\<open>acquire\<close> takes the new one, and the destructor of
  \<^verbatim>\<open>keep\<close> releases the old target at the end of the block.
\<close>

definition operator_assign ::
    "TRefCountedPointer \<Rightarrow> TRefCountedPointer \<Rightarrow> bool \<Rightarrow> 'x target_store \<Rightarrow>
     (TRefCountedPointer \<times> 'x target_store) result" where
  "operator_assign this r same_object st =
     (if \<not> same_object
      then (let keep = m_ref_with_target_obj_ptr this
            in and_then (acquire (m_ref_with_target_obj_ptr r) st)
                 (\<lambda>(this', st1). and_then (dorelease keep st1) (\<lambda>st2. Returns (this', st2))))
      else Returns (this, st))"

text \<open>
  \<^verbatim>\<open>clear()\<close> is \<^verbatim>\<open>(*this) = TRefCountedPointer<X>(nullptr)\<close>, and
  \<^verbatim>\<open>p = nullptr\<close> converts the right-hand side with the same constructor; in both
  the temporary is destroyed after the assignment.
\<close>

definition clear ::
    "TRefCountedPointer \<Rightarrow> 'x target_store \<Rightarrow> (TRefCountedPointer \<times> 'x target_store) result" where
  "clear this st =
     (let tmp = TRefCountedPointer_nullptr_ctor
      in and_then (operator_assign this tmp False st)
           (\<lambda>(this', st1). and_then (release tmp st1) (\<lambda>st2. Returns (this', st2))))"

definition assign_nullptr ::
    "TRefCountedPointer \<Rightarrow> 'x target_store \<Rightarrow> (TRefCountedPointer \<times> 'x target_store) result" where
  "assign_nullptr this st =
     (let tmp = TRefCountedPointer_nullptr_ctor
      in and_then (operator_assign this tmp False st)
           (\<lambda>(this', st1). and_then (release tmp st1) (\<lambda>st2. Returns (this', st2))))"

text \<open>
  \<^verbatim>\<open>operator*\<close> returns the reference \<^verbatim>\<open>m_ref_with_target_obj_ptr->m_object\<close>,
  \<^verbatim>\<open>operator->\<close> its address, both after the null check; \<^verbatim>\<open>get()\<close> returns
  the address or \<^verbatim>\<open>nullptr\<close> (\<open>None\<close>).
\<close>

definition TRefCountedPointer_operator_deref :: "TRefCountedPointer \<Rightarrow> addr result" where
  "TRefCountedPointer_operator_deref this =
     (case m_ref_with_target_obj_ptr this of None \<Rightarrow> Throws out_of_range
      | Some a \<Rightarrow> Returns a)"

definition TRefCountedPointer_operator_arrow :: "TRefCountedPointer \<Rightarrow> addr result" where
  "TRefCountedPointer_operator_arrow this =
     (case m_ref_with_target_obj_ptr this of None \<Rightarrow> Throws out_of_range
      | Some a \<Rightarrow> Returns a)"

definition get :: "TRefCountedPointer \<Rightarrow> addr option result" where
  "get this =
     Returns (case m_ref_with_target_obj_ptr this of None \<Rightarrow> None | Some a \<Rightarrow> Some a)"

section \<open>Auxiliary notions for the proofs\<close>

text \<open>
  What a factory call does to the free store once its temporaries are gone: the new cell
  sits at the next address with an unlocked mutex and use count one.
\<close>

definition allocate :: "'a \<Rightarrow> 'a heap \<Rightarrow> 'a heap" where
  "allocate v h = h\<lparr>objs := (objs h)(next_addr h \<mapsto> \<lparr>base = v, m_mutex1 = shared_timed_mutex_init\<rparr>),
                    use_count := (use_count h)(next_addr h := 1), next_addr := Suc (next_addr h)\<rparr>"

text \<open>
  What a call of \<^verbatim>\<open>ptr()\<close> or \<^verbatim>\<open>const_ptr()\<close> that returns does to the
  free store: the mutex of the cell is in its new state and the new proxy has added one
  to the use count.
\<close>

definition minted :: "'a heap \<Rightarrow> addr \<Rightarrow> 'a TAsyncSharedObj \<Rightarrow> shared_timed_mutex \<Rightarrow> 'a heap" where
  "minted h a ob m = h\<lparr>objs := (objs h)(a \<mapsto> ob\<lparr>m_mutex1 := m\<rparr>),
                       use_count := (use_count h)(a := Suc (use_count h a))\<rparr>"


text \<open>
  The live proxies of the general (not asserted pure) classes that reference the cell at
  \<open>a\<close>, and the live proxies of the class
  \<^verbatim>\<open>TAsyncSharedSimpleObjectYouAreSureHasNoMutableMembersConstPointer\<close> that do.
\<close>

definition general_path_proxies :: "'a state \<Rightarrow> addr \<Rightarrow> proxy list" where
  "general_path_proxies s a =
     filter (\<lambda>p. case p of TAsyncSharedPointer sp l \<Rightarrow> sp = Some a
                  | TAsyncSharedConstPointer sp l \<Rightarrow> sp = Some a
                  | TAsyncSharedImmutableConstPointer sp l \<Rightarrow> sp = Some a
                  | _ \<Rightarrow> False) (proxies s)"

definition pure_shared_const_pointers :: "'a state \<Rightarrow> addr \<Rightarrow> proxy list" where
  "pure_shared_const_pointers s a =
     filter (\<lambda>p. case p of
                    TAsyncSharedSimpleObjectYouAreSureHasNoMutableMembersConstPointer sp l \<Rightarrow>
                      sp = Some a
                  | _ \<Rightarrow> False) (proxies s)"

section \<open>The invariant holds in every reachable state\<close>

lemmas ctor_defs =
  TAsyncSharedPointer_ctor_def TAsyncSharedConstPointer_ctor_def
  TAsyncSharedImmutableConstPointer_ctor_def
  TAsyncSharedSimpleObjectYouAreSureHasNoMutableMembersPointer_ctor_def
  TAsyncSharedSimpleObjectYouAreSureHasNoMutableMembersConstPointer_ctor_def
  TAsyncSharedSimpleObjectYouAreSureHasNoMutableMembersImmutableConstPointer_ctor_def

lemmas count_defs =
  requester_refs_def proxy_refs_def exclusive_holders_def shared_holders_def

lemma length_filter_remove1:
  "x \<in> set xs \<Longrightarrow>
     length (filter P (remove1 x xs)) + (if P x then 1 else 0) = length (filter P xs)"
  by (induction xs) auto

lemma length_filter_pos: "x \<in> set xs \<Longrightarrow> P x \<Longrightarrow> 0 < length (filter P xs)"
  by (induction xs) auto

lemma add_proxy_counts:
  assumes "proxies s' = p # proxies s" and "requesters s' = requesters s"
  shows "requester_refs s' a = requester_refs s a"
    and "proxy_refs s' a = proxy_refs s a + (if m_shptr p = Some a then 1 else 0)"
    and "exclusive_holders s' a = exclusive_holders s a + (if holds_exclusive p a then 1 else 0)"
    and "shared_holders s' a = shared_holders s a + (if holds_shared p a then 1 else 0)"
  using assms by (simp_all add: count_defs)

lemma remove_proxy_counts:
  assumes "p \<in> set (proxies s)" and "proxies s' = remove1 p (proxies s)"
    and "requesters s' = requesters s"
  shows "requester_refs s' a = requester_refs s a"
    and "proxy_refs s' a + (if m_shptr p = Some a then 1 else 0) = proxy_refs s a"
    and "exclusive_holders s' a + (if holds_exclusive p a then 1 else 0) = exclusive_holders s a"
    and "shared_holders s' a + (if holds_shared p a then 1 else 0) = shared_holders s a"
  using length_filter_remove1[OF assms(1), of "\<lambda>p. m_shptr p = Some a"]
    length_filter_remove1[OF assms(1), of "\<lambda>p. holds_exclusive p a"]
    length_filter_remove1[OF assms(1), of "\<lambda>p. holds_shared p a"]
  by (simp_all add: count_defs assms(2,3))

lemma add_requester_counts:
  assumes "requesters s' = r # requesters s" and "proxies s' = proxies s"
  shows "requester_refs s' a = requester_refs s a + (if requester_m_shptr r = Some a then 1 else 0)"
    and "proxy_refs s' a = proxy_refs s a"
    and "exclusive_holders s' a = exclusive_holders s a"
    and "shared_holders s' a = shared_holders s a"
  using assms by (simp_all add: count_defs)

lemma remove_requester_counts:
  assumes "r \<in> set (requesters s)" and "requesters s' = remove1 r (requesters s)"
    and "proxies s' = proxies s"
  shows "requester_refs s' a + (if requester_m_shptr r = Some a then 1 else 0) = requester_refs s a"
    and "proxy_refs s' a = proxy_refs s a"
    and "exclusive_holders s' a = exclusive_holders s a"
    and "shared_holders s' a = shared_holders s a"
  using length_filter_remove1[OF assms(1), of "\<lambda>r. requester_m_shptr r = Some a"]
  by (simp_all add: count_defs assms(2,3))

lemma holds_exclusive_ok:
  "proxy_ok p \<Longrightarrow> holds_exclusive p a = (m_unique_lock p \<noteq> None \<and> m_shptr p = Some a)"
  by (auto simp: proxy_ok_def holds_exclusive_def split: option.splits)

lemma holds_shared_ok:
  "proxy_ok p \<Longrightarrow> holds_shared p a = (m_shared_lock p \<noteq> None \<and> m_shptr p = Some a)"
  by (auto simp: proxy_ok_def holds_shared_def split: option.splits)

lemma one_lock_member: "m_unique_lock p \<noteq> None \<Longrightarrow> m_shared_lock p = None"
  by (cases p) simp_all

lemma call_Returns:
  assumes "call t r f h = Some (Returns (p, h'))" and "requester_m_shptr r = Some x"
    and "objs h x = Some ob" and "0 < use_count h x"
  shows "m_shptr p = Some x \<and> proxy_ok p \<and>
         use_count h' = (use_count h)(x := Suc (use_count h x)) \<and>
         deleted h' = deleted h \<and> next_addr h' = next_addr h \<and>
         (\<exists>m'. objs h' = (objs h)(x \<mapsto> ob\<lparr>m_mutex1 := m'\<rparr>) \<and>
            (if m_unique_lock p \<noteq> None then lock t (m_mutex1 ob) = Returns m'
             else if m_shared_lock p \<noteq> None then lock_shared t (m_mutex1 ob) = Returns m'
             else m' = m_mutex1 ob))"
  using assms
  by (cases r; cases f)
     (auto simp: by_value_def ctor_defs and_then_def shared_ptr_copy_def shared_ptr_dtor_def
        unique_lock_ctor_def shared_lock_ctor_def proxy_ok_def Let_def
        split: result.splits option.splits if_splits)

lemma cell_live:
  assumes "cell_ok s x" and "0 < refs s x"
  shows "\<exists>ob. objs (heap s) x = Some ob \<and> 0 < use_count (heap s) x \<and> x < next_addr (heap s)"
  using assms by (cases "x < next_addr (heap s)") (auto simp: cell_ok_def)

lemma requester_live:
  assumes "state_ok s" and "r \<in> set (requesters s)"
  shows "\<exists>x ob. requester_m_shptr r = Some x \<and> objs (heap s) x = Some ob \<and>
           0 < use_count (heap s) x \<and> 0 < requester_refs s x \<and> x < next_addr (heap s)"
proof -
  from assms obtain x where x: "requester_m_shptr r = Some x"
    by (auto simp: state_ok_def)
  with assms(2) have pos: "0 < requester_refs s x"
    unfolding requester_refs_def by (intro length_filter_pos[where x=r]) auto
  from assms(1) have "cell_ok s x" by (simp add: state_ok_def)
  from cell_live[OF this] pos x show ?thesis by (simp add: refs_def)
qed

lemma proxy_live:
  assumes "state_ok s" and "p \<in> set (proxies s)" and "m_shptr p = Some x"
  shows "\<exists>ob. objs (heap s) x = Some ob \<and> 0 < use_count (heap s) x \<and> 0 < proxy_refs s x \<and>
           x < next_addr (heap s)"
proof -
  from assms(2,3) have pos: "0 < proxy_refs s x"
    unfolding proxy_refs_def by (intro length_filter_pos[where x=p]) auto
  from assms(1) have "cell_ok s x" by (simp add: state_ok_def)
  from cell_live[OF this] pos show ?thesis by (simp add: refs_def)
qed

lemma step_Call_ok:
  assumes ok: "state_ok s" and st: "step (Call t r f) s = Some s'"
  shows "state_ok s'"
proof -
  from st obtain p h' where r: "r \<in> set (requesters s)"
    and c: "call t r f (heap s) = Some (Returns (p, h'))"
    and s': "heap s' = h'" "proxies s' = p # proxies s" "requesters s' = requesters s"
    by (auto split: if_splits option.splits result.splits)
  note cnt = add_proxy_counts[OF s'(2,3)]
  from requester_live[OF ok r] obtain x ob where x: "requester_m_shptr r = Some x"
    and ob: "objs (heap s) x = Some ob" and pos: "0 < use_count (heap s) x"
    and lt: "x < next_addr (heap s)" by blast
  from call_Returns[OF c x ob pos] obtain m' where p: "m_shptr p = Some x" "proxy_ok p"
    and h': "use_count h' = (use_count (heap s))(x := Suc (use_count (heap s) x))"
      "deleted h' = deleted (heap s)" "next_addr h' = next_addr (heap s)"
      "objs h' = (objs (heap s))(x \<mapsto> ob\<lparr>m_mutex1 := m'\<rparr>)"
    and m': "if m_unique_lock p \<noteq> None then lock t (m_mutex1 ob) = Returns m'
             else if m_shared_lock p \<noteq> None then lock_shared t (m_mutex1 ob) = Returns m'
             else m' = m_mutex1 ob"
    by blast
  have cell: "cell_ok s' a" for a
  proof (cases "a = x")
    case False
    from ok have "cell_ok s a" by (simp add: state_ok_def)
    with False show ?thesis
      by (simp add: cell_ok_def refs_def s' h' cnt p holds_exclusive_ok holds_shared_ok
            split: option.splits)
  next
    case True
    from ok have "cell_ok s x" by (simp add: state_ok_def)
    with True ob lt m' one_lock_member[of p] show ?thesis
      by (auto simp: cell_ok_def refs_def s' h' cnt p holds_exclusive_ok holds_shared_ok
            lock_def lock_shared_def split: if_splits)
  qed
  from ok p r cell show ?thesis
    by (auto simp: state_ok_def s')
qed


lemma dtor_valid:
  assumes "proxy_ok p" and "m_shptr p = Some x" and "objs h x = Some ob"
  shows "dtor t p h = Returns (shared_ptr_dtor (Some x)
           (h\<lparr>objs := (objs h)(x \<mapsto> ob\<lparr>m_mutex1 :=
               (if m_unique_lock p \<noteq> None then unlock t (m_mutex1 ob)
                else if m_shared_lock p \<noteq> None then unlock_shared t (m_mutex1 ob)
                else m_mutex1 ob)\<rparr>)\<rparr>))"
  using assms
  by (cases p)
     (auto simp: proxy_ok_def unique_lock_dtor_def shared_lock_dtor_def and_then_def map_upd_triv)

lemma dtor_invalid:
  assumes "proxy_ok p" and "m_shptr p = None"
  shows "dtor t p h = Returns h"
  using assms
  by (cases p)
     (auto simp: proxy_ok_def unique_lock_dtor_def shared_lock_dtor_def and_then_def
        shared_ptr_dtor_def)

lemma step_Destroy_proxy_ok:
  assumes ok: "state_ok s" and st: "step (Destroy_proxy t p) s = Some s'"
  shows "state_ok s'"
proof -
  from st obtain h' where pin: "p \<in> set (proxies s)"
    and d: "dtor t p (heap s) = Returns h'"
    and s': "heap s' = h'" "proxies s' = remove1 p (proxies s)" "requesters s' = requesters s"
    by (auto split: if_splits result.splits)
  note cnt = remove_proxy_counts[OF pin s'(2,3)]
  from ok pin have pok: "proxy_ok p" by (simp add: state_ok_def)
  have cell: "cell_ok s' a" for a
  proof (cases "m_shptr p")
    case None
    from ok have "cell_ok s a" by (simp add: state_ok_def)
    moreover from dtor_invalid[OF pok None, where h = "heap s" and t = t] d have "h' = heap s" by simp
    ultimately show ?thesis
      using cnt[of a] None
      by (simp add: cell_ok_def refs_def s' holds_exclusive_ok[OF pok] holds_shared_ok[OF pok]
            split: option.splits)
  next
    case (Some x)
    from proxy_live[OF ok pin Some] obtain ob where ob: "objs (heap s) x = Some ob"
      and lt: "x < next_addr (heap s)" by blast
    from dtor_valid[OF pok Some ob] d
    have h': "h' = shared_ptr_dtor (Some x)
           ((heap s)\<lparr>objs := (objs (heap s))(x \<mapsto> ob\<lparr>m_mutex1 :=
               (if m_unique_lock p \<noteq> None then unlock t (m_mutex1 ob)
                else if m_shared_lock p \<noteq> None then unlock_shared t (m_mutex1 ob)
                else m_mutex1 ob)\<rparr>)\<rparr>)" by simp
    from ok have c: "cell_ok s a" by (simp add: state_ok_def)
    show ?thesis
    proof (cases "a = x")
      case False
      with c cnt[of a] Some show ?thesis
        by (simp add: cell_ok_def refs_def s' h' shared_ptr_dtor_def Let_def
              holds_exclusive_ok[OF pok] holds_shared_ok[OF pok] split: option.splits)
    next
      case True
      with c cnt[of a] Some ob lt one_lock_member[of p] show ?thesis
        by (auto simp: cell_ok_def refs_def s' h' shared_ptr_dtor_def Let_def
              holds_exclusive_ok[OF pok] holds_shared_ok[OF pok] unlock_def unlock_shared_def
              split: if_splits)
    qed
  qed
  from ok cell show ?thesis
    by (auto simp: state_ok_def s' dest: notin_set_remove1)
qed

lemma move_ctor_fst: "fst (move_ctor p) = p"
  by (cases p) (simp_all add: shared_ptr_move_def unique_lock_move_def shared_lock_move_def)

lemma move_ctor_snd:
  "m_shptr (snd (move_ctor p)) = None \<and> proxy_ok (snd (move_ctor p))"
  by (cases p)
     (simp_all add: shared_ptr_move_def unique_lock_move_def shared_lock_move_def proxy_ok_def)

lemma step_Special_member:
  assumes "step (Special_member m p) s = Some s'"
  shows "m = move_constructor" and "p \<in> set (proxies s)"
    and "s' = s\<lparr>proxies := p # snd (move_ctor p) # remove1 p (proxies s)\<rparr>"
  using assms move_ctor_fst[of p]
  by (cases m; cases "move_ctor p"; simp split: if_splits)+

lemma step_Special_member_ok:
  assumes ok: "state_ok s" and st: "step (Special_member m p) s = Some s'"
  shows "state_ok s'"
proof -
  define s1 where "s1 = s\<lparr>proxies := remove1 p (proxies s)\<rparr>"
  define s2 where "s2 = s1\<lparr>proxies := snd (move_ctor p) # proxies s1\<rparr>"
  from step_Special_member[OF st] have pin: "p \<in> set (proxies s)"
    and s': "heap s' = heap s" "proxies s' = p # proxies s2" "requesters s' = requesters s2"
    by (simp_all add: s1_def s2_def)
  have s1: "proxies s1 = remove1 p (proxies s)" "requesters s1 = requesters s"
    by (simp_all add: s1_def)
  have s2: "proxies s2 = snd (move_ctor p) # proxies s1" "requesters s2 = requesters s1"
    by (simp_all add: s2_def)
  note cnt = remove_proxy_counts[OF pin s1] add_proxy_counts[OF s2] add_proxy_counts[OF s'(2,3)]
  from ok pin have pok: "proxy_ok p" by (simp add: state_ok_def)
  note src = move_ctor_snd[of p]
  have cell: "cell_ok s' a" for a
  proof -
    from ok have "cell_ok s a" by (simp add: state_ok_def)
    with cnt[of a] src show ?thesis
      by (simp add: cell_ok_def refs_def s' holds_exclusive_ok holds_shared_ok
            split: option.splits)
  qed
  from ok cell pok src show ?thesis
    by (auto simp: state_ok_def s' s2 s1 dest: notin_set_remove1)
qed

lemma step_Copy_requester_ok:
  assumes ok: "state_ok s" and st: "step (Copy_requester r) s = Some s'"
  shows "state_ok s'"
proof -
  from st have rin: "r \<in> set (requesters s)"
    and s': "heap s' = shared_ptr_copy (requester_m_shptr r) (heap s)"
      "requesters s' = r # requesters s" "proxies s' = proxies s"
    by (auto simp: add_requester_def requester_copy_ctor_def split: if_splits)
  note cnt = add_requester_counts[OF s'(2,3)]
  from requester_live[OF ok rin] obtain x ob where x: "requester_m_shptr r = Some x"
    and ob: "objs (heap s) x = Some ob" and lt: "x < next_addr (heap s)" by blast
  have cell: "cell_ok s' a" for a
  proof -
    from ok have "cell_ok s a" by (simp add: state_ok_def)
    with cnt[of a] x ob lt show ?thesis
      by (auto simp: cell_ok_def refs_def s' shared_ptr_copy_def split: option.splits)
  qed
  from ok cell rin show ?thesis
    by (auto simp: state_ok_def s')
qed

lemma step_Destroy_requester_ok:
  assumes ok: "state_ok s" and st: "step (Destroy_requester r) s = Some s'"
  shows "state_ok s'"
proof -
  from st have rin: "r \<in> set (requesters s)"
    and s': "heap s' = shared_ptr_dtor (requester_m_shptr r) (heap s)"
      "requesters s' = remove1 r (requesters s)" "proxies s' = proxies s"
    by (auto simp: requester_dtor_def split: if_splits)
  note cnt = remove_requester_counts[OF rin s'(2,3)]
  from requester_live[OF ok rin] obtain x ob where x: "requester_m_shptr r = Some x"
    and ob: "objs (heap s) x = Some ob" and lt: "x < next_addr (heap s)" by blast
  have cell: "cell_ok s' a" for a
  proof -
    from ok have "cell_ok s a" by (simp add: state_ok_def)
    with cnt[of a] x ob lt show ?thesis
      by (auto simp: cell_ok_def refs_def s' shared_ptr_dtor_def Let_def
            split: option.splits if_splits)
  qed
  from ok cell show ?thesis
    by (auto simp: state_ok_def s' dest: notin_set_remove1)
qed


lemma length_filter_mono:
  "(\<And>x. x \<in> set xs \<Longrightarrow> P x \<Longrightarrow> Q x) \<Longrightarrow> length (filter P xs) \<le> length (filter Q xs)"
  by (induction xs) auto

lemma holders_le_refs:
  assumes "\<forall>p \<in> set (proxies s). proxy_ok p"
  shows "exclusive_holders s a \<le> proxy_refs s a" and "shared_holders s a \<le> proxy_refs s a"
  unfolding count_defs using assms
  by (auto intro!: length_filter_mono simp: holds_exclusive_ok holds_shared_ok)

lemma factory_eqs:
  "make_asyncshared v h = (TAsyncSharedAccessRequester (Some (next_addr h)), allocate v h)"
  "make_asyncsharedimmutable v h =
     (TAsyncSharedImmutableAccessRequester (Some (next_addr h)), allocate v h)"
  "make_asyncsharedsimpleobjectyouaresurehasnomutablemembers v h =
     (TAsyncSharedSimpleObjectYouAreSureHasNoMutableMembersAccessRequester (Some (next_addr h)),
      allocate v h)"
  "make_asyncsharedsimpleobjectyouaresurehasnomutablemembersimmutable v h =
     (TAsyncSharedSimpleObjectYouAreSureHasNoMutableMembersImmutableAccessRequester
        (Some (next_addr h)), allocate v h)"
  by (simp_all add: make_asyncshared_def make_asyncsharedimmutable_def
        make_asyncsharedsimpleobjectyouaresurehasnomutablemembers_def
        make_asyncsharedsimpleobjectyouaresurehasnomutablemembersimmutable_def
        TAsyncSharedAccessRequester_ctor_def TAsyncSharedImmutableAccessRequester_ctor_def
        TAsyncSharedSimpleObjectYouAreSureHasNoMutableMembersAccessRequester_ctor_def
        TAsyncSharedSimpleObjectYouAreSureHasNoMutableMembersImmutableAccessRequester_ctor_def
        shared_ptr_new_def shared_ptr_copy_def shared_ptr_dtor_def allocate_def Let_def)

lemma allocate_ok:
  assumes ok: "state_ok s" and s': "heap s' = allocate v (heap s)"
    "requesters s' = r # requesters s" "proxies s' = proxies s"
    and r: "requester_m_shptr r = Some (next_addr (heap s))"
  shows "state_ok s'"
proof -
  note cnt = add_requester_counts[OF s'(2,3)]
  from ok have pok: "\<forall>p \<in> set (proxies s). proxy_ok p" by (simp add: state_ok_def)
  have cell: "cell_ok s' a" for a
  proof (cases "a = next_addr (heap s)")
    case True
    from ok have "cell_ok s a" by (simp add: state_ok_def)
    with True cnt[of a] r holders_le_refs[OF pok, of a] show ?thesis
      by (simp add: cell_ok_def refs_def s' allocate_def shared_timed_mutex_init_def)
  next
    case False
    from ok have "cell_ok s a" by (simp add: state_ok_def)
    with False cnt[of a] r show ?thesis
      by (auto simp: cell_ok_def refs_def s' allocate_def split: option.splits)
  qed
  from ok cell r show ?thesis
    by (auto simp: state_ok_def s')
qed

lemma step_Assign_requester:
  assumes "step (Assign_requester dst src) s = Some s'"
  shows "\<exists>s1. step (Copy_requester src) s = Some s1 \<and> step (Destroy_requester dst) s1 = Some s'"
  using assms
  by (auto simp: add_requester_def requester_copy_ctor_def requester_dtor_def
        requester_copy_assign_def split: if_splits)

lemma step_ok:
  assumes "state_ok s" and "step c s = Some s'"
  shows "state_ok s'"
proof (cases c)
  case (Make_asyncshared v)
  with assms show ?thesis
    by (intro allocate_ok[OF assms(1), of _ v]) (auto simp: add_requester_def factory_eqs)
next
  case (Make_asyncsharedimmutable v)
  with assms show ?thesis
    by (intro allocate_ok[OF assms(1), of _ v]) (auto simp: add_requester_def factory_eqs)
next
  case (Make_asyncsharedsimpleobjectyouaresurehasnomutablemembers v)
  with assms show ?thesis
    by (intro allocate_ok[OF assms(1), of _ v]) (auto simp: add_requester_def factory_eqs)
next
  case (Make_asyncsharedsimpleobjectyouaresurehasnomutablemembersimmutable v)
  with assms show ?thesis
    by (intro allocate_ok[OF assms(1), of _ v]) (auto simp: add_requester_def factory_eqs)
next
  case (Copy_requester r)
  with assms show ?thesis by (simp only: step_Copy_requester_ok)
next
  case (Assign_requester dst src)
  from assms(2) have "step (Assign_requester dst src) s = Some s'"
    unfolding Assign_requester .
  from step_Assign_requester[OF this] obtain s1 where "step (Copy_requester src) s = Some s1"
    and "step (Destroy_requester dst) s1 = Some s'"
    by blast
  with assms(1) show ?thesis
    by (blast intro: step_Copy_requester_ok step_Destroy_requester_ok)
next
  case (Destroy_requester r)
  with assms show ?thesis by (simp only: step_Destroy_requester_ok)
next
  case (Call t r f)
  with assms show ?thesis by (simp only: step_Call_ok)
next
  case (Special_member m p)
  with assms show ?thesis by (simp only: step_Special_member_ok)
next
  case (Destroy_proxy t p)
  with assms show ?thesis by (simp only: step_Destroy_proxy_ok)
qed

lemma init_ok: "state_ok init"
  by (simp add: state_ok_def cell_ok_def init_def refs_def count_defs)

lemma run_ok_from: "state_ok s \<Longrightarrow> run cs s = Some s' \<Longrightarrow> state_ok s'"
  by (induction cs arbitrary: s) (auto split: option.splits dest: step_ok)

lemma run_ok: "run cs init = Some s \<Longrightarrow> state_ok s"
  using run_ok_from[OF init_ok] .

section \<open>Null reference counting pointers\<close>

lemma operator_assign_nullptr:
  "operator_assign this TRefCountedPointer_nullptr_ctor False st = Returns (p, st') \<Longrightarrow>
     m_ref_with_target_obj_ptr p = None"
  by (auto simp: operator_assign_def TRefCountedPointer_nullptr_ctor_def acquire_def and_then_def
      split: result.splits)

lemma clear_null:
  "clear this st = Returns (p, st') \<Longrightarrow> m_ref_with_target_obj_ptr p = None"
  by (auto simp: clear_def Let_def and_then_def split: result.splits dest: operator_assign_nullptr)

lemma assign_nullptr_null:
  "assign_nullptr this st = Returns (p, st') \<Longrightarrow> m_ref_with_target_obj_ptr p = None"
  by (auto simp: assign_nullptr_def Let_def and_then_def split: result.splits
      dest: operator_assign_nullptr)

lemma clear_returns:
  assumes "case m_ref_with_target_obj_ptr this of None \<Rightarrow> True
           | Some a \<Rightarrow> (case st a of None \<Rightarrow> False | Some t \<Rightarrow> 1 \<le> m_counter t)"
  shows "\<exists>p st'. clear this st = Returns (p, st')"
    and "\<exists>p st'. assign_nullptr this st = Returns (p, st')"
  using assms
  by (auto simp: clear_def assign_nullptr_def Let_def and_then_def operator_assign_def
      TRefCountedPointer_nullptr_ctor_def acquire_def dorelease_def release_def decrement_def
      split: result.splits option.splits)

text \<open>
  Claim C10. On every null \<^verbatim>\<open>TRefCountedPointer\<close>, \<^verbatim>\<open>operator*\<close> and
  \<^verbatim>\<open>operator->\<close> throw \<^verbatim>\<open>std::out_of_range\<close> and \<^verbatim>\<open>get()\<close>
  returns \<^verbatim>\<open>nullptr\<close> without throwing. A pointer is null when it was default
  constructed, constructed from \<^verbatim>\<open>nullptr\<close>, cleared or assigned
  \<^verbatim>\<open>nullptr\<close>; clearing and assigning \<^verbatim>\<open>nullptr\<close> do return whenever
  the pointer is null or its target is on the store with a counter of at least one.
\<close>

theorem null_refcounted_pointer_throws:
  "(m_ref_with_target_obj_ptr p = None \<longrightarrow>
      TRefCountedPointer_operator_deref p = Throws out_of_range \<and>
      TRefCountedPointer_operator_arrow p = Throws out_of_range \<and>
      get p = Returns None) \<and>
   m_ref_with_target_obj_ptr TRefCountedPointer_default_ctor = None \<and>
   m_ref_with_target_obj_ptr TRefCountedPointer_nullptr_ctor = None \<and>
   (\<forall>q (st :: 'x target_store) p' st'.
      clear q st = Returns (p', st') \<or> assign_nullptr q st = Returns (p', st') \<longrightarrow>
        m_ref_with_target_obj_ptr p' = None) \<and>
   (\<forall>q (st :: 'x target_store).
      (case m_ref_with_target_obj_ptr q of None \<Rightarrow> True
       | Some a \<Rightarrow> (case st a of None \<Rightarrow> False | Some t \<Rightarrow> 1 \<le> m_counter t)) \<longrightarrow>
      (\<exists>p' st'. clear q st = Returns (p', st')) \<and>
      (\<exists>p' st'. assign_nullptr q st = Returns (p', st')))"
proof (intro conjI allI impI)
  assume null: "m_ref_with_target_obj_ptr p = None"
  from null show "TRefCountedPointer_operator_deref p = Throws out_of_range"
    by (simp add: TRefCountedPointer_operator_deref_def)
  from null show "TRefCountedPointer_operator_arrow p = Throws out_of_range"
    by (simp add: TRefCountedPointer_operator_arrow_def)
  from null show "get p = Returns None"
    by (simp add: get_def)
next
  show "m_ref_with_target_obj_ptr TRefCountedPointer_default_ctor = None"
    by (simp add: TRefCountedPointer_default_ctor_def)
  show "m_ref_with_target_obj_ptr TRefCountedPointer_nullptr_ctor = None"
    by (simp add: TRefCountedPointer_nullptr_ctor_def)
next
  fix q p' and st st' :: "'x target_store"
  assume "clear q st = Returns (p', st') \<or> assign_nullptr q st = Returns (p', st')"
  then show "m_ref_with_target_obj_ptr p' = None"
    by (auto dest: clear_null assign_nullptr_null)
next
  fix q and st :: "'x target_store"
  assume a: "case m_ref_with_target_obj_ptr q of None \<Rightarrow> True
       | Some a \<Rightarrow> (case st a of None \<Rightarrow> False | Some t \<Rightarrow> 1 \<le> m_counter t)"
  from clear_returns(1)[OF a] show "\<exists>p' st'. clear q st = Returns (p', st')" .
  from clear_returns(2)[OF a] show "\<exists>p' st'. assign_nullptr q st = Returns (p', st')" .
qed

theorem null_refcounted_pointer_throws_witness:
  "clear (TRefCountedPointer (Some 0)) [0 \<mapsto> \<lparr>m_counter = 2, m_object = (7::nat)\<rparr>] =
     Returns (TRefCountedPointer None, [0 \<mapsto> \<lparr>m_counter = 1, m_object = 7\<rparr>]) \<and>
   m_ref_with_target_obj_ptr (TRefCountedPointer None) = None \<and>
   TRefCountedPointer_operator_deref (TRefCountedPointer None) = Throws out_of_range \<and>
   TRefCountedPointer_operator_arrow (TRefCountedPointer None) = Throws out_of_range \<and>
   get (TRefCountedPointer None) = Returns None"
proof -
  have c: "clear (TRefCountedPointer (Some 0)) [0 \<mapsto> \<lparr>m_counter = 2, m_object = (7::nat)\<rparr>] =
     Returns (TRefCountedPointer None, [0 \<mapsto> \<lparr>m_counter = 1, m_object = 7\<rparr>])"
    by (simp add: clear_def Let_def and_then_def operator_assign_def
      TRefCountedPointer_nullptr_ctor_def acquire_def dorelease_def release_def decrement_def
      increment_def)
  note T = null_refcounted_pointer_throws[of "TRefCountedPointer None", where 'x = nat]
  from T c have n: "m_ref_with_target_obj_ptr (TRefCountedPointer None) = None" by blast
  with T c show ?thesis by blast
qed

section \<open>What a call does in a reachable state\<close>

lemma call_eqs:
  assumes "objs h a = Some ob"
  shows "by_value (TAsyncSharedPointer_ctor t) (Some a) h =
           and_then (lock t (m_mutex1 ob)) (\<lambda>m.
             Returns (TAsyncSharedPointer (Some a) (unique_lock (Some a) True), minted h a ob m))"
    and "by_value (TAsyncSharedConstPointer_ctor t) (Some a) h =
           and_then (lock t (m_mutex1 ob)) (\<lambda>m.
             Returns (TAsyncSharedConstPointer (Some a) (unique_lock (Some a) True),
                      minted h a ob m))"
    and "by_value (TAsyncSharedImmutableConstPointer_ctor t) (Some a) h =
           and_then (lock t (m_mutex1 ob)) (\<lambda>m.
             Returns (TAsyncSharedImmutableConstPointer (Some a) (unique_lock (Some a) True),
                      minted h a ob m))"
    and "by_value (TAsyncSharedSimpleObjectYouAreSureHasNoMutableMembersPointer_ctor t) (Some a) h =
           and_then (lock t (m_mutex1 ob)) (\<lambda>m.
             Returns (TAsyncSharedSimpleObjectYouAreSureHasNoMutableMembersPointer (Some a)
                        (unique_lock (Some a) True), minted h a ob m))"
    and "by_value (TAsyncSharedSimpleObjectYouAreSureHasNoMutableMembersConstPointer_ctor t) (Some a) h =
           and_then (lock_shared t (m_mutex1 ob)) (\<lambda>m.
             Returns (TAsyncSharedSimpleObjectYouAreSureHasNoMutableMembersConstPointer (Some a)
                        (shared_lock (Some a) True), minted h a ob m))"
    and "by_value (TAsyncSharedSimpleObjectYouAreSureHasNoMutableMembersImmutableConstPointer_ctor t)
           (Some a) h =
           Returns
             (TAsyncSharedSimpleObjectYouAreSureHasNoMutableMembersImmutableConstPointer (Some a),
              minted h a ob (m_mutex1 ob))"
  using assms
  by (auto simp: by_value_def ctor_defs and_then_def shared_ptr_copy_def shared_ptr_dtor_def
        unique_lock_ctor_def shared_lock_ctor_def Let_def minted_def map_upd_triv
        split: result.splits)

text \<open>
  When the lock member's constructor throws, \<^verbatim>\<open>m_shptr\<close> and the argument of the
  proxy's constructor, both copies of the requester's pointer, are destroyed again: the
  free store is as it was before the call.
\<close>

lemma unwinding_restores:
  assumes "0 < use_count h a"
  shows "shared_ptr_dtor (Some a) (shared_ptr_dtor (Some a)
           (shared_ptr_copy (Some a) (shared_ptr_copy (Some a) h))) = h"
  using assms by (simp add: shared_ptr_copy_def shared_ptr_dtor_def Let_def)

lemma exclusive_holders_le_1:
  assumes "state_ok s"
  shows "exclusive_holders s a \<le> 1"
proof (cases "objs (heap s) a")
  case None
  from assms have "cell_ok s a" and "\<forall>p \<in> set (proxies s). proxy_ok p"
    by (simp_all add: state_ok_def)
  with None holders_le_refs(1)[of s a] show ?thesis
    by (simp add: cell_ok_def refs_def)
next
  case (Some ob)
  from assms have "cell_ok s a" by (simp add: state_ok_def)
  with Some show ?thesis by (simp add: cell_ok_def)
qed

lemma mutex_reflects_holders:
  assumes "state_ok s" and "objs (heap s) a = Some ob"
  shows "0 < exclusive_holders s a \<Longrightarrow> \<exists>t0. exclusive_owner (m_mutex1 ob) = Some t0"
    and "shared_owners (m_mutex1 ob) = shared_holders s a"
    and "0 < shared_holders s a \<Longrightarrow> exclusive_owner (m_mutex1 ob) = None"
    and "exclusive_owner (m_mutex1 ob) = Some t \<Longrightarrow> shared_owners (m_mutex1 ob) = 0"
proof -
  from assms(1) have "cell_ok s a" by (simp add: state_ok_def)
  with assms(2) show "0 < exclusive_holders s a \<Longrightarrow> \<exists>t0. exclusive_owner (m_mutex1 ob) = Some t0"
    and "shared_owners (m_mutex1 ob) = shared_holders s a"
    and "0 < shared_holders s a \<Longrightarrow> exclusive_owner (m_mutex1 ob) = None"
    and "exclusive_owner (m_mutex1 ob) = Some t \<Longrightarrow> shared_owners (m_mutex1 ob) = 0"
    by (auto simp: cell_ok_def)
qed

lemma lock_held:
  assumes "exclusive_owner m = Some t0"
  shows "lock t m = (if t = t0 then Throws system_error else Blocks)"
    and "lock_shared t m = (if t = t0 then Throws system_error else Blocks)"
  using assms by (simp_all add: lock_def lock_shared_def)

lemma lock_free:
  assumes "exclusive_owner m = None"
  shows "lock t m = (if 0 < shared_owners m then Blocks
                     else Returns (m\<lparr>exclusive_owner := Some t\<rparr>))"
    and "lock_shared t m = Returns (m\<lparr>shared_owners := Suc (shared_owners m)\<rparr>)"
  using assms by (simp_all add: lock_def lock_shared_def)

section \<open>Exclusive access\<close>


lemma destroy_holder:
  assumes ok: "state_ok s" and pin: "p \<in> set (proxies s)" and sp: "m_shptr p = Some a"
    and ob: "objs (heap s) a = Some ob"
  shows "\<exists>s'. step (Destroy_proxy t p) s = Some s' \<and> state_ok s' \<and>
           requesters s' = requesters s \<and> proxies s' = remove1 p (proxies s) \<and>
           heap s' = shared_ptr_dtor (Some a)
             ((heap s)\<lparr>objs := (objs (heap s))(a \<mapsto> ob\<lparr>m_mutex1 :=
                 (if m_unique_lock p \<noteq> None then unlock t (m_mutex1 ob)
                  else if m_shared_lock p \<noteq> None then unlock_shared t (m_mutex1 ob)
                  else m_mutex1 ob)\<rparr>)\<rparr>)"
proof -
  define h' where "h' = shared_ptr_dtor (Some a)
             ((heap s)\<lparr>objs := (objs (heap s))(a \<mapsto> ob\<lparr>m_mutex1 :=
                 (if m_unique_lock p \<noteq> None then unlock t (m_mutex1 ob)
                  else if m_shared_lock p \<noteq> None then unlock_shared t (m_mutex1 ob)
                  else m_mutex1 ob)\<rparr>)\<rparr>)"
  define s' where "s' = s\<lparr>heap := h', proxies := remove1 p (proxies s)\<rparr>"
  from ok pin have pok: "proxy_ok p" by (simp add: state_ok_def)
  from dtor_valid[OF pok sp ob, where t = t] have "dtor t p (heap s) = Returns h'"
    unfolding h'_def .
  with pin have st: "step (Destroy_proxy t p) s = Some s'"
    by (simp add: s'_def)
  have "requesters s' = requesters s" "proxies s' = remove1 p (proxies s)" "heap s' = h'"
    by (simp_all add: s'_def)
  with step_ok[OF ok st] st show ?thesis
    unfolding h'_def by blast
qed

lemma shared_ptr_dtor_objs:
  "objs (shared_ptr_dtor (Some a) h) a = Some ob \<Longrightarrow> objs h a = Some ob"
  by (simp add: shared_ptr_dtor_def Let_def split: if_splits)

text \<open>
  A proxy that holds the write side of a cell's mutex, destroyed in a thread \<open>t\<close> while a
  requester of the cell is alive: the mutex is released when \<open>t\<close> is the thread that owns
  it, and stays as it is otherwise.
\<close>

lemma destroy_exclusive_holder:
  assumes ok: "state_ok s" and pin: "p \<in> set (proxies s)" and he: "holds_exclusive p a"
    and rin: "r \<in> set (requesters s)" and r: "requester_m_shptr r = Some a"
  shows "\<exists>ob t0. objs (heap s) a = Some ob \<and> exclusive_owner (m_mutex1 ob) = Some t0 \<and>
           shared_owners (m_mutex1 ob) = 0 \<and>
           (\<forall>t. \<exists>s'. step (Destroy_proxy t p) s = Some s' \<and> state_ok s' \<and>
                  requesters s' = requesters s \<and> proxies s' = remove1 p (proxies s) \<and>
                  objs (heap s') a =
                    Some (ob\<lparr>m_mutex1 := (if t = t0 then (m_mutex1 ob)\<lparr>exclusive_owner := None\<rparr>
                                           else m_mutex1 ob)\<rparr>))"
proof -
  from ok pin have pok: "proxy_ok p" by (simp add: state_ok_def)
  from he have ul: "m_unique_lock p \<noteq> None" and sp: "m_shptr p = Some a"
    by (simp_all add: holds_exclusive_ok[OF pok])
  from requester_live[OF ok rin] r obtain ob where ob: "objs (heap s) a = Some ob" by auto
  from pin he have "0 < exclusive_holders s a"
    unfolding exclusive_holders_def by (rule length_filter_pos)
  from mutex_reflects_holders(1)[OF ok ob this] obtain t0
    where t0: "exclusive_owner (m_mutex1 ob) = Some t0" by blast
  note sh = mutex_reflects_holders(4)[OF ok ob t0]
  have "\<exists>s'. step (Destroy_proxy t p) s = Some s' \<and> state_ok s' \<and>
                  requesters s' = requesters s \<and> proxies s' = remove1 p (proxies s) \<and>
                  objs (heap s') a =
                    Some (ob\<lparr>m_mutex1 := (if t = t0 then (m_mutex1 ob)\<lparr>exclusive_owner := None\<rparr>
                                           else m_mutex1 ob)\<rparr>)" for t
  proof -
    from destroy_holder[OF ok pin sp ob, of t] ul obtain s'
      where st: "step (Destroy_proxy t p) s = Some s'" and ok': "state_ok s'"
        and s': "requesters s' = requesters s" "proxies s' = remove1 p (proxies s)"
        and h': "heap s' = shared_ptr_dtor (Some a)
             ((heap s)\<lparr>objs := (objs (heap s))(a \<mapsto> ob\<lparr>m_mutex1 := unlock t (m_mutex1 ob)\<rparr>)\<rparr>)"
      by auto
    from rin s' have "r \<in> set (requesters s')" by simp
    from requester_live[OF ok' this] r obtain ob' where ob': "objs (heap s') a = Some ob'"
      by auto
    from shared_ptr_dtor_objs[OF ob'[unfolded h']]
    have "ob' = ob\<lparr>m_mutex1 := unlock t (m_mutex1 ob)\<rparr>" by simp
    with ob' t0 have "objs (heap s') a =
                    Some (ob\<lparr>m_mutex1 := (if t = t0 then (m_mutex1 ob)\<lparr>exclusive_owner := None\<rparr>
                                           else m_mutex1 ob)\<rparr>)"
      by (simp add: unlock_def)
    with st ok' s' show ?thesis by blast
  qed
  with ob t0 sh show ?thesis by blast
qed

lemmas eval_simps =
  init_def add_requester_def factory_eqs allocate_def call_eqs minted_def lock_def lock_shared_def
  unlock_def unlock_shared_def and_then_def shared_timed_mutex_init_def




section \<open>Read access on the general path\<close>

lemma general_path_le_holders:
  assumes "state_ok s"
  shows "length (general_path_proxies s a) \<le> exclusive_holders s a"
proof -
  from assms have pok: "\<forall>p \<in> set (proxies s). proxy_ok p" by (simp add: state_ok_def)
  then show ?thesis
    unfolding general_path_proxies_def exclusive_holders_def
    by (intro length_filter_mono) (auto simp: holds_exclusive_ok split: proxy.splits)
qed

lemma general_path_proxiesD:
  assumes "state_ok s" and "p \<in> set (general_path_proxies s a)"
  shows "p \<in> set (proxies s)" and "holds_exclusive p a"
proof -
  from assms(2) show pin: "p \<in> set (proxies s)"
    by (auto simp: general_path_proxies_def)
  from assms(1) pin have pok: "proxy_ok p" by (simp add: state_ok_def)
  from assms(2) show "holds_exclusive p a"
    by (auto simp: general_path_proxies_def holds_exclusive_ok[OF pok] split: proxy.splits)
qed

text \<open>
  Claim C2. On the general path a read proxy made by \<^verbatim>\<open>const_ptr()\<close>, from a
  mutable or from an immutable requester, holds a \<^verbatim>\<open>std::unique_lock\<close> that
  owns the cell's mutex, which the calling thread then owns exclusively. So in every
  reachable state at most one general-path proxy references a cell, const readers
  included. For a live requester of the cell, mutable or immutable:
  \<^item> when nobody holds the mutex, \<^verbatim>\<open>const_ptr()\<close> returns, in whichever thread;
  \<^item> when \<^verbatim>\<open>const_ptr()\<close> returns, there was no general-path proxy, the new
    proxy holds the write lock and does not give mutable access;
  \<^item> while a general-path proxy is alive, a thread \<open>t0\<close> owns the mutex, and
    \<^verbatim>\<open>const_ptr()\<close> and \<^verbatim>\<open>ptr()\<close> do not return: they block in
    every other thread and throw \<^verbatim>\<open>std::system_error\<close> in thread \<open>t0\<close>; after
    the proxy's destruction in thread \<open>t0\<close>, \<^verbatim>\<open>const_ptr()\<close> returns.
\<close>

theorem general_const_readers_take_write_lock:
  assumes "run cs init = Some s"
  shows "length (general_path_proxies s a) \<le> 1 \<and>
         (\<forall>r \<in> set (requesters s).
            r = TAsyncSharedAccessRequester (Some a) \<or>
            r = TAsyncSharedImmutableAccessRequester (Some a) \<longrightarrow>
              (\<exists>ob. objs (heap s) a = Some ob \<and>
                 (exclusive_owner (m_mutex1 ob) = None \<and> shared_owners (m_mutex1 ob) = 0 \<longrightarrow>
                    (\<forall>t. \<exists>p h. call t r const_ptr (heap s) = Some (Returns (p, h))))) \<and>
              (\<forall>t p h. call t r const_ptr (heap s) = Some (Returns (p, h)) \<longrightarrow>
                 m_unique_lock p = Some (unique_lock (Some a) True) \<and>
                 \<not> grants_mutable_access p \<and>
                 (\<exists>ob. objs h a = Some ob \<and> exclusive_owner (m_mutex1 ob) = Some t) \<and>
                 general_path_proxies s a = []) \<and>
              (\<forall>p \<in> set (general_path_proxies s a).
                 \<exists>ob t0. objs (heap s) a = Some ob \<and> exclusive_owner (m_mutex1 ob) = Some t0 \<and>
                      (\<forall>t. call t r const_ptr (heap s) =
                              Some (if t = t0 then Throws system_error else Blocks) \<and>
                            (r = TAsyncSharedAccessRequester (Some a) \<longrightarrow>
                               call t r ptr (heap s) =
                                 Some (if t = t0 then Throws system_error else Blocks))) \<and>
                      (\<exists>s'. step (Destroy_proxy t0 p) s = Some s' \<and>
                         (\<forall>t. \<exists>q h. call t r const_ptr (heap s') = Some (Returns (q, h))))))"
proof (intro conjI ballI impI)
  from assms have ok: "state_ok s" by (rule run_ok)
  note le = general_path_le_holders[OF ok, of a]
  with exclusive_holders_le_1[OF ok, of a] show "length (general_path_proxies s a) \<le> 1" by simp
  fix r assume rin: "r \<in> set (requesters s)"
    and r: "r = TAsyncSharedAccessRequester (Some a) \<or>
            r = TAsyncSharedImmutableAccessRequester (Some a)"
  then have ra: "requester_m_shptr r = Some a" by auto
  from requester_live[OF ok rin] r obtain ob where ob: "objs (heap s) a = Some ob" by auto
  have "\<exists>p h. call t r const_ptr (heap s) = Some (Returns (p, h))"
    if "exclusive_owner (m_mutex1 ob) = None \<and> shared_owners (m_mutex1 ob) = 0" for t
    using r that by (auto simp: call_eqs[OF ob] lock_def and_then_def)
  with ob show "\<exists>ob. objs (heap s) a = Some ob \<and>
                 (exclusive_owner (m_mutex1 ob) = None \<and> shared_owners (m_mutex1 ob) = 0 \<longrightarrow>
                    (\<forall>t. \<exists>p h. call t r const_ptr (heap s) = Some (Returns (p, h))))"
    by blast
  show "\<forall>t p h. call t r const_ptr (heap s) = Some (Returns (p, h)) \<longrightarrow>
                 m_unique_lock p = Some (unique_lock (Some a) True) \<and>
                 \<not> grants_mutable_access p \<and>
                 (\<exists>ob. objs h a = Some ob \<and> exclusive_owner (m_mutex1 ob) = Some t) \<and>
                 general_path_proxies s a = []"
  proof (intro allI impI)
    fix t p h assume c: "call t r const_ptr (heap s) = Some (Returns (p, h))"
    with r have free: "exclusive_owner (m_mutex1 ob) = None"
      and p: "p = TAsyncSharedConstPointer (Some a) (unique_lock (Some a) True) \<or>
              p = TAsyncSharedImmutableConstPointer (Some a) (unique_lock (Some a) True)"
      and h: "h = minted (heap s) a ob ((m_mutex1 ob)\<lparr>exclusive_owner := Some t\<rparr>)"
      by (auto simp: call_eqs[OF ob] lock_def and_then_def split: if_splits)
    from ok have "cell_ok s a" by (simp add: state_ok_def)
    with ob free have "exclusive_holders s a = 0" by (simp add: cell_ok_def)
    with le have "general_path_proxies s a = []" by simp
    moreover from p have "m_unique_lock p = Some (unique_lock (Some a) True)" by auto
    moreover from p have "\<not> grants_mutable_access p" by auto
    moreover from h have "\<exists>ob. objs h a = Some ob \<and> exclusive_owner (m_mutex1 ob) = Some t"
      by (simp add: minted_def)
    ultimately show "m_unique_lock p = Some (unique_lock (Some a) True) \<and>
                 \<not> grants_mutable_access p \<and>
                 (\<exists>ob. objs h a = Some ob \<and> exclusive_owner (m_mutex1 ob) = Some t) \<and>
                 general_path_proxies s a = []"
      by blast
  qed
  fix p assume p: "p \<in> set (general_path_proxies s a)"
  note pd = general_path_proxiesD[OF ok p]
  from destroy_exclusive_holder[OF ok pd rin ra] ob obtain t0
    where t0: "exclusive_owner (m_mutex1 ob) = Some t0"
      and sh: "shared_owners (m_mutex1 ob) = 0"
      and d: "\<And>t. \<exists>s'. step (Destroy_proxy t p) s = Some s' \<and>
                objs (heap s') a =
                  Some (ob\<lparr>m_mutex1 := (if t = t0 then (m_mutex1 ob)\<lparr>exclusive_owner := None\<rparr>
                                         else m_mutex1 ob)\<rparr>)"
    by fastforce
  have held: "call t r const_ptr (heap s) =
                Some (if t = t0 then Throws system_error else Blocks) \<and>
              (r = TAsyncSharedAccessRequester (Some a) \<longrightarrow>
                 call t r ptr (heap s) = Some (if t = t0 then Throws system_error else Blocks))"
    for t
    using r by (auto simp: call_eqs[OF ob] lock_held[OF t0] and_then_def)
  from d[of t0] obtain s' where st: "step (Destroy_proxy t0 p) s = Some s'"
    and ob': "objs (heap s') a = Some (ob\<lparr>m_mutex1 := (m_mutex1 ob)\<lparr>exclusive_owner := None\<rparr>\<rparr>)"
    by auto
  have "\<exists>q h. call t r const_ptr (heap s') = Some (Returns (q, h))" for t
    using r by (auto simp: call_eqs[OF ob'] lock_def sh and_then_def)
  with st have "\<exists>s'. step (Destroy_proxy t0 p) s = Some s' \<and>
                  (\<forall>t. \<exists>q h. call t r const_ptr (heap s') = Some (Returns (q, h)))"
    by blast
  with held ob t0
  show "\<exists>ob t0. objs (heap s) a = Some ob \<and> exclusive_owner (m_mutex1 ob) = Some t0 \<and>
                      (\<forall>t. call t r const_ptr (heap s) =
                              Some (if t = t0 then Throws system_error else Blocks) \<and>
                            (r = TAsyncSharedAccessRequester (Some a) \<longrightarrow>
                               call t r ptr (heap s) =
                                 Some (if t = t0 then Throws system_error else Blocks))) \<and>
                      (\<exists>s'. step (Destroy_proxy t0 p) s = Some s' \<and>
                         (\<forall>t. \<exists>q h. call t r const_ptr (heap s') = Some (Returns (q, h))))"
    by blast
qed

theorem general_const_readers_take_write_lock_witness:
  "(\<exists>s0 p h. run [Make_asyncsharedimmutable (5::nat)] init = Some s0 \<and>
       call 1 (TAsyncSharedImmutableAccessRequester (Some 0)) const_ptr (heap s0) =
         Some (Returns (p, h)) \<and>
       m_unique_lock p = Some (unique_lock (Some 0) True) \<and> \<not> grants_mutable_access p) \<and>
   (\<exists>s. run [Make_asyncsharedimmutable (5::nat),
             Call 1 (TAsyncSharedImmutableAccessRequester (Some 0)) const_ptr] init = Some s \<and>
       general_path_proxies s 0 =
         [TAsyncSharedImmutableConstPointer (Some 0) (unique_lock (Some 0) True)] \<and>
       call 1 (TAsyncSharedImmutableAccessRequester (Some 0)) const_ptr (heap s) =
         Some (Throws system_error) \<and>
       call 2 (TAsyncSharedImmutableAccessRequester (Some 0)) const_ptr (heap s) = Some Blocks \<and>
       (\<exists>s'. step (Destroy_proxy 1
                 (TAsyncSharedImmutableConstPointer (Some 0) (unique_lock (Some 0) True))) s =
               Some s' \<and>
          (\<exists>q h'. call 2 (TAsyncSharedImmutableAccessRequester (Some 0)) const_ptr (heap s') =
             Some (Returns (q, h'))))) \<and>
   (\<exists>s. run [Make_asyncshared (5::nat), Call 1 (TAsyncSharedAccessRequester (Some 0)) const_ptr]
          init = Some s \<and>
       general_path_proxies s 0 = [TAsyncSharedConstPointer (Some 0) (unique_lock (Some 0) True)] \<and>
       call 2 (TAsyncSharedAccessRequester (Some 0)) const_ptr (heap s) = Some Blocks \<and>
       call 2 (TAsyncSharedAccessRequester (Some 0)) ptr (heap s) = Some Blocks)"
proof (intro conjI)
  obtain s0 where run0: "run [Make_asyncsharedimmutable (5::nat)] init = Some s0"
    and rs0: "requesters s0 = [TAsyncSharedImmutableAccessRequester (Some 0)]"
    and hs0: "objs (heap s0) 0 =
       Some \<lparr>base = 5, m_mutex1 = \<lparr>exclusive_owner = None, shared_owners = 0\<rparr>\<rparr>"
    by (simp add: eval_simps)
  from rs0 have rin0: "TAsyncSharedImmutableAccessRequester (Some 0) \<in> set (requesters s0)"
    by simp
  note T = general_const_readers_take_write_lock[OF run0, of 0, THEN conjunct2, THEN bspec,
      OF rin0, THEN mp, OF disjI2, OF refl]
  from T[THEN conjunct1] obtain ob where ob: "objs (heap s0) 0 = Some ob"
    and free: "exclusive_owner (m_mutex1 ob) = None \<and> shared_owners (m_mutex1 ob) = 0 \<longrightarrow>
         (\<forall>t. \<exists>p h. call t (TAsyncSharedImmutableAccessRequester (Some 0)) const_ptr (heap s0) =
                        Some (Returns (p, h)))"
    by blast
  from ob hs0 have "exclusive_owner (m_mutex1 ob) = None \<and> shared_owners (m_mutex1 ob) = 0"
    by auto
  with free obtain p h
    where c: "call 1 (TAsyncSharedImmutableAccessRequester (Some 0)) const_ptr (heap s0) =
                Some (Returns (p, h))"
    by blast
  from T[THEN conjunct2, THEN conjunct1, rule_format, OF c]
  have "m_unique_lock p = Some (unique_lock (Some 0) True) \<and> \<not> grants_mutable_access p"
    by blast
  with run0 c
  show "\<exists>s0 p h. run [Make_asyncsharedimmutable (5::nat)] init = Some s0 \<and>
       call 1 (TAsyncSharedImmutableAccessRequester (Some 0)) const_ptr (heap s0) =
         Some (Returns (p, h)) \<and>
       m_unique_lock p = Some (unique_lock (Some 0) True) \<and> \<not> grants_mutable_access p"
    by blast
next
  obtain s where run: "run [Make_asyncsharedimmutable (5::nat),
             Call 1 (TAsyncSharedImmutableAccessRequester (Some 0)) const_ptr] init = Some s"
    and ps: "proxies s = [TAsyncSharedImmutableConstPointer (Some 0) (unique_lock (Some 0) True)]"
    and rs: "requesters s = [TAsyncSharedImmutableAccessRequester (Some 0)]"
    and hs: "objs (heap s) 0 =
       Some \<lparr>base = 5, m_mutex1 = \<lparr>exclusive_owner = Some 1, shared_owners = 0\<rparr>\<rparr>"
    by (simp add: eval_simps)
  from ps have gp: "general_path_proxies s 0 =
      [TAsyncSharedImmutableConstPointer (Some 0) (unique_lock (Some 0) True)]"
    by (simp add: general_path_proxies_def)
  then have pin: "TAsyncSharedImmutableConstPointer (Some 0) (unique_lock (Some 0) True)
      \<in> set (general_path_proxies s 0)" by simp
  from rs have rin: "TAsyncSharedImmutableAccessRequester (Some 0) \<in> set (requesters s)" by simp
  note T = general_const_readers_take_write_lock[OF run, of 0, THEN conjunct2, THEN bspec,
      OF rin, THEN mp, OF disjI2, OF refl, THEN conjunct2, THEN conjunct2, THEN bspec, OF pin]
  from T obtain ob t0 where ob: "objs (heap s) 0 = Some ob"
    and t0: "exclusive_owner (m_mutex1 ob) = Some t0"
    and held: "\<And>t. call t (TAsyncSharedImmutableAccessRequester (Some 0)) const_ptr (heap s) =
                  Some (if t = t0 then Throws system_error else Blocks)"
    and rel: "\<exists>s'. step (Destroy_proxy t0
                   (TAsyncSharedImmutableConstPointer (Some 0) (unique_lock (Some 0) True))) s =
                 Some s' \<and>
             (\<forall>t. \<exists>q h. call t (TAsyncSharedImmutableAccessRequester (Some 0)) const_ptr (heap s') =
                Some (Returns (q, h)))"
    by blast
  from ob hs t0 have t01: "t0 = 1" by auto
  from held[of 1] t01
  have a: "call 1 (TAsyncSharedImmutableAccessRequester (Some 0)) const_ptr (heap s) =
         Some (Throws system_error)" by simp
  from held[of 2] t01
  have b: "call 2 (TAsyncSharedImmutableAccessRequester (Some 0)) const_ptr (heap s) = Some Blocks"
    by simp
  from rel t01 have c: "\<exists>s'. step (Destroy_proxy 1
                 (TAsyncSharedImmutableConstPointer (Some 0) (unique_lock (Some 0) True))) s =
               Some s' \<and>
          (\<exists>q h'. call 2 (TAsyncSharedImmutableAccessRequester (Some 0)) const_ptr (heap s') =
             Some (Returns (q, h')))"
    by blast
  from run gp a b c
  show "\<exists>s. run [Make_asyncsharedimmutable (5::nat),
             Call 1 (TAsyncSharedImmutableAccessRequester (Some 0)) const_ptr] init = Some s \<and>
       general_path_proxies s 0 =
         [TAsyncSharedImmutableConstPointer (Some 0) (unique_lock (Some 0) True)] \<and>
       call 1 (TAsyncSharedImmutableAccessRequester (Some 0)) const_ptr (heap s) =
         Some (Throws system_error) \<and>
       call 2 (TAsyncSharedImmutableAccessRequester (Some 0)) const_ptr (heap s) = Some Blocks \<and>
       (\<exists>s'. step (Destroy_proxy 1
                 (TAsyncSharedImmutableConstPointer (Some 0) (unique_lock (Some 0) True))) s =
               Some s' \<and>
          (\<exists>q h'. call 2 (TAsyncSharedImmutableAccessRequester (Some 0)) const_ptr (heap s') =
             Some (Returns (q, h'))))"
    by blast
next
  obtain s where run: "run [Make_asyncshared (5::nat),
        Call 1 (TAsyncSharedAccessRequester (Some 0)) const_ptr] init = Some s"
    and ps: "proxies s = [TAsyncSharedConstPointer (Some 0) (unique_lock (Some 0) True)]"
    and rs: "requesters s = [TAsyncSharedAccessRequester (Some 0)]"
    and hs: "objs (heap s) 0 =
       Some \<lparr>base = 5, m_mutex1 = \<lparr>exclusive_owner = Some 1, shared_owners = 0\<rparr>\<rparr>"
    by (simp add: eval_simps)
  from ps have gp: "general_path_proxies s 0 =
      [TAsyncSharedConstPointer (Some 0) (unique_lock (Some 0) True)]"
    by (simp add: general_path_proxies_def)
  then have pin: "TAsyncSharedConstPointer (Some 0) (unique_lock (Some 0) True)
      \<in> set (general_path_proxies s 0)" by simp
  from rs have rin: "TAsyncSharedAccessRequester (Some 0) \<in> set (requesters s)" by simp
  note T = general_const_readers_take_write_lock[OF run, of 0, THEN conjunct2, THEN bspec,
      OF rin, THEN mp, OF disjI1, OF refl, THEN conjunct2, THEN conjunct2, THEN bspec, OF pin]
  from T obtain ob t0 where ob: "objs (heap s) 0 = Some ob"
    and t0: "exclusive_owner (m_mutex1 ob) = Some t0"
    and held: "\<And>t. call t (TAsyncSharedAccessRequester (Some 0)) const_ptr (heap s) =
                  Some (if t = t0 then Throws system_error else Blocks) \<and>
                call t (TAsyncSharedAccessRequester (Some 0)) ptr (heap s) =
                  Some (if t = t0 then Throws system_error else Blocks)"
    by blast
  from ob hs t0 have t01: "t0 = 1" by auto
  from held[of 2] t01
  have "call 2 (TAsyncSharedAccessRequester (Some 0)) const_ptr (heap s) = Some Blocks"
    "call 2 (TAsyncSharedAccessRequester (Some 0)) ptr (heap s) = Some Blocks"
    by simp_all
  with run gp show "\<exists>s. run [Make_asyncshared (5::nat),
          Call 1 (TAsyncSharedAccessRequester (Some 0)) const_ptr] init = Some s \<and>
       general_path_proxies s 0 = [TAsyncSharedConstPointer (Some 0) (unique_lock (Some 0) True)] \<and>
       call 2 (TAsyncSharedAccessRequester (Some 0)) const_ptr (heap s) = Some Blocks \<and>
       call 2 (TAsyncSharedAccessRequester (Some 0)) ptr (heap s) = Some Blocks"
    by blast
qed

section \<open>Read access to types asserted pure\<close>

lemma shared_holders_eq:
  assumes "state_ok s"
  shows "shared_holders s a = length (pure_shared_const_pointers s a)"
proof -
  from assms have pok: "\<forall>p \<in> set (proxies s). proxy_ok p" by (simp add: state_ok_def)
  have "filter (\<lambda>p. holds_shared p a) (proxies s) = pure_shared_const_pointers s a"
    unfolding pure_shared_const_pointers_def using pok
    by (intro filter_cong) (auto simp: holds_shared_ok split: proxy.splits)
  then show ?thesis by (simp add: shared_holders_def)
qed

lemma mint_reader:
  assumes ok: "state_ok s"
    and rin: "TAsyncSharedSimpleObjectYouAreSureHasNoMutableMembersAccessRequester (Some a)
                \<in> set (requesters s)"
    and ob: "objs (heap s) a = Some ob"
    and free: "exclusive_owner (m_mutex1 ob) = None"
  shows "\<exists>s' h ob'. step (Call t (TAsyncSharedSimpleObjectYouAreSureHasNoMutableMembersAccessRequester
                              (Some a)) const_ptr) s = Some s' \<and>
           heap s' = h \<and> requesters s' = requesters s \<and>
           proxies s' = TAsyncSharedSimpleObjectYouAreSureHasNoMutableMembersConstPointer (Some a)
                          (shared_lock (Some a) True) # proxies s \<and>
           call t (TAsyncSharedSimpleObjectYouAreSureHasNoMutableMembersAccessRequester (Some a))
             const_ptr (heap s) =
             Some (Returns (TAsyncSharedSimpleObjectYouAreSureHasNoMutableMembersConstPointer
                              (Some a) (shared_lock (Some a) True), h)) \<and>
           objs h a = Some ob' \<and> exclusive_owner (m_mutex1 ob') = None \<and>
           shared_owners (m_mutex1 ob') = Suc (shared_holders s a)"
  using rin free mutex_reflects_holders(2)[OF ok ob]
  by (simp add: call_eqs[OF ob] lock_free[OF free] and_then_def minted_def)

lemma mint_readers:
  assumes "state_ok s"
    and "TAsyncSharedSimpleObjectYouAreSureHasNoMutableMembersAccessRequester (Some a)
                \<in> set (requesters s)"
    and "objs (heap s) a = Some ob"
    and "exclusive_owner (m_mutex1 ob) = None"
  shows "\<exists>s'. run (map (\<lambda>t.
                 Call t (TAsyncSharedSimpleObjectYouAreSureHasNoMutableMembersAccessRequester
                          (Some a)) const_ptr) ts) s = Some s' \<and>
              length (pure_shared_const_pointers s' a) =
                length ts + length (pure_shared_const_pointers s a)"
  using assms
proof (induction ts arbitrary: s ob)
  case Nil
  then show ?case by simp
next
  case (Cons t ts)
  from mint_reader[OF Cons.prems, of t] obtain s1 ob1 where
    st: "step (Call t (TAsyncSharedSimpleObjectYouAreSureHasNoMutableMembersAccessRequester
                              (Some a)) const_ptr) s = Some s1"
    and s1: "requesters s1 = requesters s"
      "proxies s1 = TAsyncSharedSimpleObjectYouAreSureHasNoMutableMembersConstPointer (Some a)
                          (shared_lock (Some a) True) # proxies s"
    and ob1: "objs (heap s1) a = Some ob1" "exclusive_owner (m_mutex1 ob1) = None"
    by blast
  from step_ok[OF Cons.prems(1) st] have ok1: "state_ok s1" .
  from Cons.prems(2) s1 have rin1:
    "TAsyncSharedSimpleObjectYouAreSureHasNoMutableMembersAccessRequester (Some a)
       \<in> set (requesters s1)" by simp
  from Cons.IH[OF ok1 rin1 ob1] obtain s' where
    "run (map (\<lambda>t.
                 Call t (TAsyncSharedSimpleObjectYouAreSureHasNoMutableMembersAccessRequester
                          (Some a)) const_ptr) ts) s1 = Some s'"
    "length (pure_shared_const_pointers s' a) = length ts + length (pure_shared_const_pointers s1 a)"
    by blast
  with st s1 show ?case
    by (simp add: pure_shared_const_pointers_def)
qed

text \<open>
  Claim C3. A proxy of the class
  \<^verbatim>\<open>TAsyncSharedSimpleObjectYouAreSureHasNoMutableMembersConstPointer\<close> takes the
  read side of the mutex only: the read side has as many holders as there are such
  proxies. For a live requester of the cell:
  \<^item> while no thread owns the mutex exclusively, \<^verbatim>\<open>const_ptr()\<close> returns such a
    proxy, in whichever thread and however many readers there are already, so any
    number of them can be made one after the other and be alive together;
  \<^item> while a reader is alive, no proxy holds the write side, no thread owns the mutex
    exclusively, and \<^verbatim>\<open>ptr()\<close> blocks;
  \<^item> while a proxy holds the write side, a thread \<open>t0\<close> owns the mutex exclusively; and
    while a thread \<open>t0\<close> does, there is no reader and \<^verbatim>\<open>const_ptr()\<close> does not
    return: it blocks in every other thread and throws \<^verbatim>\<open>std::system_error\<close> in
    thread \<open>t0\<close>. After the destruction of the proxy that holds the write side, in
    thread \<open>t0\<close>, \<^verbatim>\<open>const_ptr()\<close> returns.

  (The model's count of shared owners is unbounded; an implementation of
  \<^verbatim>\<open>std::shared_timed_mutex\<close> may limit it.)
\<close>

theorem pure_shared_readers_share_the_lock:
  assumes "run cs init = Some s"
  shows "(pure_shared_const_pointers s a \<noteq> [] \<longrightarrow> exclusive_holders s a = 0) \<and>
         (\<forall>r \<in> set (requesters s).
            r = TAsyncSharedSimpleObjectYouAreSureHasNoMutableMembersAccessRequester (Some a) \<longrightarrow>
              (\<exists>ob. objs (heap s) a = Some ob) \<and>
              (\<forall>ob. objs (heap s) a = Some ob \<longrightarrow>
                 shared_owners (m_mutex1 ob) = length (pure_shared_const_pointers s a) \<and>
                 (pure_shared_const_pointers s a \<noteq> [] \<longrightarrow>
                    exclusive_owner (m_mutex1 ob) = None \<and>
                    (\<forall>t. call t r ptr (heap s) = Some Blocks)) \<and>
                 (exclusive_owner (m_mutex1 ob) = None \<longrightarrow>
                    (\<forall>t. \<exists>h ob'. call t r const_ptr (heap s) =
                        Some (Returns (TAsyncSharedSimpleObjectYouAreSureHasNoMutableMembersConstPointer
                                         (Some a) (shared_lock (Some a) True), h)) \<and>
                        objs h a = Some ob' \<and> exclusive_owner (m_mutex1 ob') = None \<and>
                        shared_owners (m_mutex1 ob') =
                          Suc (length (pure_shared_const_pointers s a))) \<and>
                    (\<forall>ts. \<exists>s'. run (map (\<lambda>t. Call t r const_ptr) ts) s = Some s' \<and>
                        length (pure_shared_const_pointers s' a) =
                          length ts + length (pure_shared_const_pointers s a))) \<and>
                 (\<forall>t0. exclusive_owner (m_mutex1 ob) = Some t0 \<longrightarrow>
                    pure_shared_const_pointers s a = [] \<and>
                    (\<forall>t. call t r const_ptr (heap s) =
                           Some (if t = t0 then Throws system_error else Blocks))) \<and>
                 (\<forall>p \<in> set (proxies s). holds_exclusive p a \<longrightarrow>
                    (\<exists>t0. exclusive_owner (m_mutex1 ob) = Some t0 \<and>
                       (\<exists>s'. step (Destroy_proxy t0 p) s = Some s' \<and>
                          (\<forall>t. \<exists>q h. call t r const_ptr (heap s') = Some (Returns (q, h))))))))"
proof (intro conjI ballI impI)
  from assms have ok: "state_ok s" by (rule run_ok)
  note sh = shared_holders_eq[OF ok, of a]
  {
    assume ne: "pure_shared_const_pointers s a \<noteq> []"
    with sh have pos: "0 < shared_holders s a" by simp
    have "\<not> 0 < exclusive_holders s a"
    proof
      assume e: "0 < exclusive_holders s a"
      then have "objs (heap s) a \<noteq> None"
        using ok holders_le_refs(1)[of s a]
        by (auto simp: state_ok_def cell_ok_def refs_def dest!: spec[where x=a])
      then obtain ob where ob: "objs (heap s) a = Some ob" by blast
      from mutex_reflects_holders(1)[OF ok ob e] mutex_reflects_holders(3)[OF ok ob pos]
      show False by simp
    qed
    then show "exclusive_holders s a = 0" by simp
  }
  fix r assume rin: "r \<in> set (requesters s)"
    and r: "r = TAsyncSharedSimpleObjectYouAreSureHasNoMutableMembersAccessRequester (Some a)"
  then have ra: "requester_m_shptr r = Some a" by simp
  from requester_live[OF ok rin] r obtain ob where ob: "objs (heap s) a = Some ob" by auto
  note so = mutex_reflects_holders(2)[OF ok ob]
  have count: "shared_owners (m_mutex1 ob) = length (pure_shared_const_pointers s a)"
    using so sh by simp
  have readers: "exclusive_owner (m_mutex1 ob) = None \<and> (\<forall>t. call t r ptr (heap s) = Some Blocks)"
    if ne: "pure_shared_const_pointers s a \<noteq> []"
  proof -
    from ne sh have pos: "0 < shared_holders s a" by simp
    note free = mutex_reflects_holders(3)[OF ok ob pos]
    from pos so have "0 < shared_owners (m_mutex1 ob)" by simp
    then have "call t r ptr (heap s) = Some Blocks" for t
      by (simp add: r call_eqs[OF ob] lock_free[OF free] and_then_def)
    with free show ?thesis by blast
  qed
  have mint: "(\<forall>t. \<exists>h ob'. call t r const_ptr (heap s) =
                        Some (Returns (TAsyncSharedSimpleObjectYouAreSureHasNoMutableMembersConstPointer
                                         (Some a) (shared_lock (Some a) True), h)) \<and>
                        objs h a = Some ob' \<and> exclusive_owner (m_mutex1 ob') = None \<and>
                        shared_owners (m_mutex1 ob') =
                          Suc (length (pure_shared_const_pointers s a))) \<and>
                    (\<forall>ts. \<exists>s'. run (map (\<lambda>t. Call t r const_ptr) ts) s = Some s' \<and>
                        length (pure_shared_const_pointers s' a) =
                          length ts + length (pure_shared_const_pointers s a))"
    if free: "exclusive_owner (m_mutex1 ob) = None"
  proof (intro conjI allI)
    fix t
    from mint_reader[OF ok rin[unfolded r] ob free, of t] sh
    show "\<exists>h ob'. call t r const_ptr (heap s) =
                        Some (Returns (TAsyncSharedSimpleObjectYouAreSureHasNoMutableMembersConstPointer
                                         (Some a) (shared_lock (Some a) True), h)) \<and>
                        objs h a = Some ob' \<and> exclusive_owner (m_mutex1 ob') = None \<and>
                        shared_owners (m_mutex1 ob') =
                          Suc (length (pure_shared_const_pointers s a))"
      unfolding r by auto
  next
    fix ts
    from mint_readers[OF ok rin[unfolded r] ob free, of ts]
    show "\<exists>s'. run (map (\<lambda>t. Call t r const_ptr) ts) s = Some s' \<and>
                        length (pure_shared_const_pointers s' a) =
                          length ts + length (pure_shared_const_pointers s a)"
      unfolding r .
  qed
  have writer: "pure_shared_const_pointers s a = [] \<and>
                    (\<forall>t. call t r const_ptr (heap s) =
                           Some (if t = t0 then Throws system_error else Blocks))"
    if t0: "exclusive_owner (m_mutex1 ob) = Some t0" for t0
  proof -
    from mutex_reflects_holders(4)[OF ok ob t0] count
    have "pure_shared_const_pointers s a = []" by simp
    moreover have "call t r const_ptr (heap s) =
                           Some (if t = t0 then Throws system_error else Blocks)" for t
      by (simp add: r call_eqs[OF ob] lock_held[OF t0] and_then_def)
    ultimately show ?thesis by blast
  qed
  have release: "\<exists>t0. exclusive_owner (m_mutex1 ob) = Some t0 \<and>
                       (\<exists>s'. step (Destroy_proxy t0 p) s = Some s' \<and>
                          (\<forall>t. \<exists>q h. call t r const_ptr (heap s') = Some (Returns (q, h))))"
    if pin: "p \<in> set (proxies s)" and he: "holds_exclusive p a" for p
  proof -
    from destroy_exclusive_holder[OF ok pin he rin ra] ob obtain t0
      where t0: "exclusive_owner (m_mutex1 ob) = Some t0"
        and d: "\<And>t. \<exists>s'. step (Destroy_proxy t p) s = Some s' \<and>
                  objs (heap s') a =
                    Some (ob\<lparr>m_mutex1 := (if t = t0 then (m_mutex1 ob)\<lparr>exclusive_owner := None\<rparr>
                                           else m_mutex1 ob)\<rparr>)"
      by fastforce
    from d[of t0] obtain s' where st: "step (Destroy_proxy t0 p) s = Some s'"
      and ob': "objs (heap s') a = Some (ob\<lparr>m_mutex1 := (m_mutex1 ob)\<lparr>exclusive_owner := None\<rparr>\<rparr>)"
      by auto
    have "\<exists>q h. call t r const_ptr (heap s') = Some (Returns (q, h))" for t
      by (simp add: r call_eqs[OF ob'] lock_shared_def and_then_def)
    with st t0 show ?thesis by blast
  qed
  from count readers mint writer release
  have body: "shared_owners (m_mutex1 ob) = length (pure_shared_const_pointers s a) \<and>
                 (pure_shared_const_pointers s a \<noteq> [] \<longrightarrow>
                    exclusive_owner (m_mutex1 ob) = None \<and>
                    (\<forall>t. call t r ptr (heap s) = Some Blocks)) \<and>
                 (exclusive_owner (m_mutex1 ob) = None \<longrightarrow>
                    (\<forall>t. \<exists>h ob'. call t r const_ptr (heap s) =
                        Some (Returns (TAsyncSharedSimpleObjectYouAreSureHasNoMutableMembersConstPointer
                                         (Some a) (shared_lock (Some a) True), h)) \<and>
                        objs h a = Some ob' \<and> exclusive_owner (m_mutex1 ob') = None \<and>
                        shared_owners (m_mutex1 ob') =
                          Suc (length (pure_shared_const_pointers s a))) \<and>
                    (\<forall>ts. \<exists>s'. run (map (\<lambda>t. Call t r const_ptr) ts) s = Some s' \<and>
                        length (pure_shared_const_pointers s' a) =
                          length ts + length (pure_shared_const_pointers s a))) \<and>
                 (\<forall>t0. exclusive_owner (m_mutex1 ob) = Some t0 \<longrightarrow>
                    pure_shared_const_pointers s a = [] \<and>
                    (\<forall>t. call t r const_ptr (heap s) =
                           Some (if t = t0 then Throws system_error else Blocks))) \<and>
                 (\<forall>p \<in> set (proxies s). holds_exclusive p a \<longrightarrow>
                    (\<exists>t0. exclusive_owner (m_mutex1 ob) = Some t0 \<and>
                       (\<exists>s'. step (Destroy_proxy t0 p) s = Some s' \<and>
                          (\<forall>t. \<exists>q h. call t r const_ptr (heap s') = Some (Returns (q, h))))))"
    by (intro conjI impI allI ballI) blast+
  from ob show "\<exists>ob. objs (heap s) a = Some ob" by blast
  show "\<forall>ob. objs (heap s) a = Some ob \<longrightarrow>
                 shared_owners (m_mutex1 ob) = length (pure_shared_const_pointers s a) \<and>
                 (pure_shared_const_pointers s a \<noteq> [] \<longrightarrow>
                    exclusive_owner (m_mutex1 ob) = None \<and>
                    (\<forall>t. call t r ptr (heap s) = Some Blocks)) \<and>
                 (exclusive_owner (m_mutex1 ob) = None \<longrightarrow>
                    (\<forall>t. \<exists>h ob'. call t r const_ptr (heap s) =
                        Some (Returns (TAsyncSharedSimpleObjectYouAreSureHasNoMutableMembersConstPointer
                                         (Some a) (shared_lock (Some a) True), h)) \<and>
                        objs h a = Some ob' \<and> exclusive_owner (m_mutex1 ob') = None \<and>
                        shared_owners (m_mutex1 ob') =
                          Suc (length (pure_shared_const_pointers s a))) \<and>
                    (\<forall>ts. \<exists>s'. run (map (\<lambda>t. Call t r const_ptr) ts) s = Some s' \<and>
                        length (pure_shared_const_pointers s' a) =
                          length ts + length (pure_shared_const_pointers s a))) \<and>
                 (\<forall>t0. exclusive_owner (m_mutex1 ob) = Some t0 \<longrightarrow>
                    pure_shared_const_pointers s a = [] \<and>
                    (\<forall>t. call t r const_ptr (heap s) =
                           Some (if t = t0 then Throws system_error else Blocks))) \<and>
                 (\<forall>p \<in> set (proxies s). holds_exclusive p a \<longrightarrow>
                    (\<exists>t0. exclusive_owner (m_mutex1 ob) = Some t0 \<and>
                       (\<exists>s'. step (Destroy_proxy t0 p) s = Some s' \<and>
                          (\<forall>t. \<exists>q h. call t r const_ptr (heap s') = Some (Returns (q, h))))))"
  proof (intro allI impI)
    fix ob' assume "objs (heap s) a = Some ob'"
    with ob have "ob' = ob" by simp
    with body show "shared_owners (m_mutex1 ob') = length (pure_shared_const_pointers s a) \<and>
                 (pure_shared_const_pointers s a \<noteq> [] \<longrightarrow>
                    exclusive_owner (m_mutex1 ob') = None \<and>
                    (\<forall>t. call t r ptr (heap s) = Some Blocks)) \<and>
                 (exclusive_owner (m_mutex1 ob') = None \<longrightarrow>
                    (\<forall>t. \<exists>h ob'. call t r const_ptr (heap s) =
                        Some (Returns (TAsyncSharedSimpleObjectYouAreSureHasNoMutableMembersConstPointer
                                         (Some a) (shared_lock (Some a) True), h)) \<and>
                        objs h a = Some ob' \<and> exclusive_owner (m_mutex1 ob') = None \<and>
                        shared_owners (m_mutex1 ob') =
                          Suc (length (pure_shared_const_pointers s a))) \<and>
                    (\<forall>ts. \<exists>s'. run (map (\<lambda>t. Call t r const_ptr) ts) s = Some s' \<and>
                        length (pure_shared_const_pointers s' a) =
                          length ts + length (pure_shared_const_pointers s a))) \<and>
                 (\<forall>t0. exclusive_owner (m_mutex1 ob') = Some t0 \<longrightarrow>
                    pure_shared_const_pointers s a = [] \<and>
                    (\<forall>t. call t r const_ptr (heap s) =
                           Some (if t = t0 then Throws system_error else Blocks))) \<and>
                 (\<forall>p \<in> set (proxies s). holds_exclusive p a \<longrightarrow>
                    (\<exists>t0. exclusive_owner (m_mutex1 ob') = Some t0 \<and>
                       (\<exists>s'. step (Destroy_proxy t0 p) s = Some s' \<and>
                          (\<forall>t. \<exists>q h. call t r const_ptr (heap s') = Some (Returns (q, h))))))"
      by simp
  qed
qed

theorem pure_shared_readers_share_the_lock_witness:
  "(\<exists>s. run [Make_asyncsharedsimpleobjectyouaresurehasnomutablemembers (5::nat),
             Call 1 (TAsyncSharedSimpleObjectYouAreSureHasNoMutableMembersAccessRequester (Some 0))
               const_ptr,
             Call 2 (TAsyncSharedSimpleObjectYouAreSureHasNoMutableMembersAccessRequester (Some 0))
               const_ptr] init = Some s \<and>
       pure_shared_const_pointers s 0 =
         [TAsyncSharedSimpleObjectYouAreSureHasNoMutableMembersConstPointer (Some 0)
            (shared_lock (Some 0) True),
          TAsyncSharedSimpleObjectYouAreSureHasNoMutableMembersConstPointer (Some 0)
            (shared_lock (Some 0) True)] \<and>
       exclusive_holders s 0 = 0 \<and>
       call 3 (TAsyncSharedSimpleObjectYouAreSureHasNoMutableMembersAccessRequester (Some 0)) ptr
         (heap s) = Some Blocks \<and>
       (\<exists>h ob. call 3 (TAsyncSharedSimpleObjectYouAreSureHasNoMutableMembersAccessRequester (Some 0))
                 const_ptr (heap s) =
                 Some (Returns (TAsyncSharedSimpleObjectYouAreSureHasNoMutableMembersConstPointer
                                  (Some 0) (shared_lock (Some 0) True), h)) \<and>
               objs h 0 = Some ob \<and> shared_owners (m_mutex1 ob) = 3)) \<and>
   (\<exists>s. run [Make_asyncsharedsimpleobjectyouaresurehasnomutablemembers (5::nat),
             Call 1 (TAsyncSharedSimpleObjectYouAreSureHasNoMutableMembersAccessRequester (Some 0))
               ptr] init = Some s \<and>
       pure_shared_const_pointers s 0 = [] \<and>
       call 1 (TAsyncSharedSimpleObjectYouAreSureHasNoMutableMembersAccessRequester (Some 0))
         const_ptr (heap s) = Some (Throws system_error) \<and>
       call 2 (TAsyncSharedSimpleObjectYouAreSureHasNoMutableMembersAccessRequester (Some 0))
         const_ptr (heap s) = Some Blocks \<and>
       (\<exists>s'. step (Destroy_proxy 1
                 (TAsyncSharedSimpleObjectYouAreSureHasNoMutableMembersPointer (Some 0)
                    (unique_lock (Some 0) True))) s = Some s' \<and>
          (\<exists>q h. call 2 (TAsyncSharedSimpleObjectYouAreSureHasNoMutableMembersAccessRequester (Some 0))
                    const_ptr (heap s') = Some (Returns (q, h)))))"
proof (intro conjI)
  obtain s where run: "run [Make_asyncsharedsimpleobjectyouaresurehasnomutablemembers (5::nat),
             Call 1 (TAsyncSharedSimpleObjectYouAreSureHasNoMutableMembersAccessRequester (Some 0))
               const_ptr,
             Call 2 (TAsyncSharedSimpleObjectYouAreSureHasNoMutableMembersAccessRequester (Some 0))
               const_ptr] init = Some s"
    and ps: "proxies s =
         [TAsyncSharedSimpleObjectYouAreSureHasNoMutableMembersConstPointer (Some 0)
            (shared_lock (Some 0) True),
          TAsyncSharedSimpleObjectYouAreSureHasNoMutableMembersConstPointer (Some 0)
            (shared_lock (Some 0) True)]"
    and rs: "requesters s =
         [TAsyncSharedSimpleObjectYouAreSureHasNoMutableMembersAccessRequester (Some 0)]"
    by (simp add: eval_simps)
  from ps have pp: "pure_shared_const_pointers s 0 =
         [TAsyncSharedSimpleObjectYouAreSureHasNoMutableMembersConstPointer (Some 0)
            (shared_lock (Some 0) True),
          TAsyncSharedSimpleObjectYouAreSureHasNoMutableMembersConstPointer (Some 0)
            (shared_lock (Some 0) True)]"
    by (simp add: pure_shared_const_pointers_def)
  then have ne: "pure_shared_const_pointers s 0 \<noteq> []"
    and len: "length (pure_shared_const_pointers s 0) = 2" by simp_all
  from rs have rin: "TAsyncSharedSimpleObjectYouAreSureHasNoMutableMembersAccessRequester (Some 0)
      \<in> set (requesters s)" by simp
  note T = pure_shared_readers_share_the_lock[OF run, of 0]
  from T[THEN conjunct1] ne have ex: "exclusive_holders s 0 = 0" by blast
  obtain ob where hs: "objs (heap s) 0 = Some ob"
    using run by (auto simp: eval_simps)
  note B = T[THEN conjunct2, THEN bspec, OF rin, THEN mp, OF refl, THEN conjunct2,
      THEN spec, THEN mp, OF hs]
  note readers = B[THEN conjunct2, THEN conjunct1]
  note mint = B[THEN conjunct2, THEN conjunct2, THEN conjunct1, THEN mp, THEN conjunct1]
  from readers ne have free: "exclusive_owner (m_mutex1 ob) = None"
    and blk: "call 3 (TAsyncSharedSimpleObjectYouAreSureHasNoMutableMembersAccessRequester (Some 0)) ptr
         (heap s) = Some Blocks"
    by blast+
  from mint[OF free, THEN spec, of 3] obtain h ob'
    where "call 3 (TAsyncSharedSimpleObjectYouAreSureHasNoMutableMembersAccessRequester (Some 0)) const_ptr (heap s) =
                        Some (Returns (TAsyncSharedSimpleObjectYouAreSureHasNoMutableMembersConstPointer
                                         (Some 0) (shared_lock (Some 0) True), h))"
      and "objs h 0 = Some ob'"
      and "shared_owners (m_mutex1 ob') = Suc (length (pure_shared_const_pointers s 0))"
    by blast
  with len have ret: "\<exists>h ob. call 3 (TAsyncSharedSimpleObjectYouAreSureHasNoMutableMembersAccessRequester (Some 0))
                 const_ptr (heap s) =
                 Some (Returns (TAsyncSharedSimpleObjectYouAreSureHasNoMutableMembersConstPointer
                                  (Some 0) (shared_lock (Some 0) True), h)) \<and>
               objs h 0 = Some ob \<and> shared_owners (m_mutex1 ob) = 3"
    by (auto simp: numeral_3_eq_3)
  from run pp ex blk ret
  show "\<exists>s. run [Make_asyncsharedsimpleobjectyouaresurehasnomutablemembers (5::nat),
             Call 1 (TAsyncSharedSimpleObjectYouAreSureHasNoMutableMembersAccessRequester (Some 0))
               const_ptr,
             Call 2 (TAsyncSharedSimpleObjectYouAreSureHasNoMutableMembersAccessRequester (Some 0))
               const_ptr] init = Some s \<and>
       pure_shared_const_pointers s 0 =
         [TAsyncSharedSimpleObjectYouAreSureHasNoMutableMembersConstPointer (Some 0)
            (shared_lock (Some 0) True),
          TAsyncSharedSimpleObjectYouAreSureHasNoMutableMembersConstPointer (Some 0)
            (shared_lock (Some 0) True)] \<and>
       exclusive_holders s 0 = 0 \<and>
       call 3 (TAsyncSharedSimpleObjectYouAreSureHasNoMutableMembersAccessRequester (Some 0)) ptr
         (heap s) = Some Blocks \<and>
       (\<exists>h ob. call 3 (TAsyncSharedSimpleObjectYouAreSureHasNoMutableMembersAccessRequester (Some 0))
                 const_ptr (heap s) =
                 Some (Returns (TAsyncSharedSimpleObjectYouAreSureHasNoMutableMembersConstPointer
                                  (Some 0) (shared_lock (Some 0) True), h)) \<and>
               objs h 0 = Some ob \<and> shared_owners (m_mutex1 ob) = 3)"
    by blast
next
  obtain s where run: "run [Make_asyncsharedsimpleobjectyouaresurehasnomutablemembers (5::nat),
             Call 1 (TAsyncSharedSimpleObjectYouAreSureHasNoMutableMembersAccessRequester (Some 0))
               ptr] init = Some s"
    and ps: "proxies s =
         [TAsyncSharedSimpleObjectYouAreSureHasNoMutableMembersPointer (Some 0)
            (unique_lock (Some 0) True)]"
    and rs: "requesters s =
         [TAsyncSharedSimpleObjectYouAreSureHasNoMutableMembersAccessRequester (Some 0)]"
    and hs: "objs (heap s) 0 =
       Some \<lparr>base = 5, m_mutex1 = \<lparr>exclusive_owner = Some 1, shared_owners = 0\<rparr>\<rparr>"
    by (simp add: eval_simps)
  from rs have rin: "TAsyncSharedSimpleObjectYouAreSureHasNoMutableMembersAccessRequester (Some 0)
      \<in> set (requesters s)" by simp
  from ps have pin: "TAsyncSharedSimpleObjectYouAreSureHasNoMutableMembersPointer (Some 0)
            (unique_lock (Some 0) True) \<in> set (proxies s)" by simp
  have he: "holds_exclusive (TAsyncSharedSimpleObjectYouAreSureHasNoMutableMembersPointer (Some 0)
            (unique_lock (Some 0) True)) 0"
    by (simp add: holds_exclusive_def)
  note T = pure_shared_readers_share_the_lock[OF run, of 0]
  note B = T[THEN conjunct2, THEN bspec, OF rin, THEN mp, OF refl, THEN conjunct2,
      THEN spec, THEN mp, OF hs]
  note writer = B[THEN conjunct2, THEN conjunct2, THEN conjunct2, THEN conjunct1]
  note release = B[THEN conjunct2, THEN conjunct2, THEN conjunct2, THEN conjunct2]
  have own: "exclusive_owner (m_mutex1 \<lparr>base = 5::nat,
      m_mutex1 = \<lparr>exclusive_owner = Some 1, shared_owners = 0\<rparr>\<rparr>) = Some 1" by simp
  from writer[rule_format, OF own]
  have pp: "pure_shared_const_pointers s 0 = []"
    and held: "\<And>t. call t (TAsyncSharedSimpleObjectYouAreSureHasNoMutableMembersAccessRequester (Some 0)) const_ptr (heap s) =
                           Some (if t = 1 then Throws system_error else Blocks)"
    by blast+
  from held[of 1] have a: "call 1 (TAsyncSharedSimpleObjectYouAreSureHasNoMutableMembersAccessRequester (Some 0))
         const_ptr (heap s) = Some (Throws system_error)" by simp
  from held[of 2] have b: "call 2 (TAsyncSharedSimpleObjectYouAreSureHasNoMutableMembersAccessRequester (Some 0))
         const_ptr (heap s) = Some Blocks" by simp
  from release[THEN bspec, OF pin, THEN mp, OF he] obtain t0 s'
    where t0: "exclusive_owner (m_mutex1 \<lparr>base = 5::nat,
      m_mutex1 = \<lparr>exclusive_owner = Some 1, shared_owners = 0\<rparr>\<rparr>) = Some t0"
      and st: "step (Destroy_proxy t0
                 (TAsyncSharedSimpleObjectYouAreSureHasNoMutableMembersPointer (Some 0)
                    (unique_lock (Some 0) True))) s = Some s'"
      and ret: "\<forall>t. \<exists>q h. call t (TAsyncSharedSimpleObjectYouAreSureHasNoMutableMembersAccessRequester (Some 0))
                    const_ptr (heap s') = Some (Returns (q, h))"
    by blast
  from t0 have "t0 = 1" by simp
  with st ret
  have c: "\<exists>s'. step (Destroy_proxy 1
                 (TAsyncSharedSimpleObjectYouAreSureHasNoMutableMembersPointer (Some 0)
                    (unique_lock (Some 0) True))) s = Some s' \<and>
          (\<exists>q h. call 2 (TAsyncSharedSimpleObjectYouAreSureHasNoMutableMembersAccessRequester (Some 0))
                    const_ptr (heap s') = Some (Returns (q, h)))"
    by blast
  from run pp a b c
  show "\<exists>s. run [Make_asyncsharedsimpleobjectyouaresurehasnomutablemembers (5::nat),
             Call 1 (TAsyncSharedSimpleObjectYouAreSureHasNoMutableMembersAccessRequester (Some 0))
               ptr] init = Some s \<and>
       pure_shared_const_pointers s 0 = [] \<and>
       call 1 (TAsyncSharedSimpleObjectYouAreSureHasNoMutableMembersAccessRequester (Some 0))
         const_ptr (heap s) = Some (Throws system_error) \<and>
       call 2 (TAsyncSharedSimpleObjectYouAreSureHasNoMutableMembersAccessRequester (Some 0))
         const_ptr (heap s) = Some Blocks \<and>
       (\<exists>s'. step (Destroy_proxy 1
                 (TAsyncSharedSimpleObjectYouAreSureHasNoMutableMembersPointer (Some 0)
                    (unique_lock (Some 0) True))) s = Some s' \<and>
          (\<exists>q h. call 2 (TAsyncSharedSimpleObjectYouAreSureHasNoMutableMembersAccessRequester (Some 0))
                    const_ptr (heap s') = Some (Returns (q, h))))"
    by blast
qed

text \<open>
  Claim C4. In every reachable state \<^verbatim>\<open>const_ptr()\<close> on a live requester of the
  class \<^verbatim>\<open>...ImmutableAccessRequester\<close> of the asserted-pure family returns, in
  whichever thread \<open>t\<close> (it never blocks and never throws, whatever proxies exist and
  whoever owns the mutex); the proxy has no lock member; the objects on the free store,
  their mutexes included, are as before; and destroying the proxy, in whichever thread
  \<open>t'\<close>, gives back the free store as it was before the call.
\<close>

theorem pure_immutable_pointer_takes_no_lock:
  assumes "run cs init = Some s"
    and "TAsyncSharedSimpleObjectYouAreSureHasNoMutableMembersImmutableAccessRequester sp
           \<in> set (requesters s)"
  shows "\<exists>p h. call t (TAsyncSharedSimpleObjectYouAreSureHasNoMutableMembersImmutableAccessRequester
                      sp) const_ptr (heap s) = Some (Returns (p, h)) \<and>
           p = TAsyncSharedSimpleObjectYouAreSureHasNoMutableMembersImmutableConstPointer sp \<and>
           m_unique_lock p = None \<and> m_shared_lock p = None \<and>
           objs h = objs (heap s) \<and>
           dtor t' p h = Returns (heap s)"
proof -
  from assms(1) have ok: "state_ok s" by (rule run_ok)
  from requester_live[OF ok assms(2)] obtain a ob where sp: "sp = Some a"
    and ob: "objs (heap s) a = Some ob" and pos: "0 < use_count (heap s) a" by auto
  show ?thesis
    using pos ob
    by (simp add: sp call_eqs[OF ob] minted_def map_upd_triv shared_ptr_dtor_def)
qed

theorem pure_immutable_pointer_takes_no_lock_witness:
  "\<exists>s. run [Make_asyncsharedsimpleobjectyouaresurehasnomutablemembersimmutable (5::nat),
             Call 1 (TAsyncSharedSimpleObjectYouAreSureHasNoMutableMembersImmutableAccessRequester
                     (Some 0)) const_ptr,
             Call 2 (TAsyncSharedSimpleObjectYouAreSureHasNoMutableMembersImmutableAccessRequester
                     (Some 0)) const_ptr] init = Some s \<and>
       length (proxies s) = 2 \<and>
       (\<exists>h. call 3 (TAsyncSharedSimpleObjectYouAreSureHasNoMutableMembersImmutableAccessRequester
                    (Some 0)) const_ptr (heap s) =
              Some (Returns
                (TAsyncSharedSimpleObjectYouAreSureHasNoMutableMembersImmutableConstPointer (Some 0),
                 h)) \<and>
            objs h = objs (heap s) \<and>
            dtor 4 (TAsyncSharedSimpleObjectYouAreSureHasNoMutableMembersImmutableConstPointer
                    (Some 0)) h = Returns (heap s))"
proof -
  obtain s where run: "run [Make_asyncsharedsimpleobjectyouaresurehasnomutablemembersimmutable (5::nat),
             Call 1 (TAsyncSharedSimpleObjectYouAreSureHasNoMutableMembersImmutableAccessRequester
                     (Some 0)) const_ptr,
             Call 2 (TAsyncSharedSimpleObjectYouAreSureHasNoMutableMembersImmutableAccessRequester
                     (Some 0)) const_ptr] init = Some s"
    and ps: "length (proxies s) = 2"
    and rs: "requesters s =
         [TAsyncSharedSimpleObjectYouAreSureHasNoMutableMembersImmutableAccessRequester (Some 0)]"
    by (simp add: eval_simps)
  from pure_immutable_pointer_takes_no_lock[OF run, of "Some 0" 3 4] rs ps run show ?thesis
    by auto
qed

section \<open>Dereference, validity check and move construction\<close>

lemma run_append:
  "run (cs @ ds) s = (case run cs s of None \<Rightarrow> None | Some s' \<Rightarrow> run ds s')"
  by (induction cs arbitrary: s) (simp_all split: option.splits)

lemma deref_eq:
  "operator_deref p = (case m_shptr p of None \<Rightarrow> Throws out_of_range | Some a \<Rightarrow> Returns a)"
  "operator_arrow p = (case m_shptr p of None \<Rightarrow> Throws out_of_range | Some a \<Rightarrow> Returns a)"
  by (simp_all add: operator_deref_def operator_arrow_def is_valid_def split: option.splits)

lemma moved_from:
  "m_shptr (snd (move_ctor p)) = None"
  "\<not> holds_exclusive (snd (move_ctor p)) a"
  "\<not> holds_shared (snd (move_ctor p)) a"
  "dtor t (snd (move_ctor p)) h = Returns h"
  by (cases p;
      simp add: shared_ptr_move_def unique_lock_move_def shared_lock_move_def holds_exclusive_def
        holds_shared_def unique_lock_dtor_def shared_lock_dtor_def shared_ptr_dtor_def
        and_then_def)+

text \<open>
  Claim C5. For every proxy class, \<^verbatim>\<open>operator*\<close> and \<^verbatim>\<open>operator->\<close>
  return the address held in \<^verbatim>\<open>m_shptr\<close> when there is one and throw
  \<^verbatim>\<open>std::out_of_range\<close> when there is none; they have no other outcome. On the
  source of a move construction they throw. In a reachable state the address a live,
  valid proxy returns is that of a cell which is still on the free store.
\<close>

theorem dereference_returns_or_throws:
  "operator_deref p = (case m_shptr p of None \<Rightarrow> Throws out_of_range | Some a \<Rightarrow> Returns a) \<and>
   operator_arrow p = (case m_shptr p of None \<Rightarrow> Throws out_of_range | Some a \<Rightarrow> Returns a) \<and>
   operator_deref (snd (move_ctor p)) = Throws out_of_range \<and>
   operator_arrow (snd (move_ctor p)) = Throws out_of_range \<and>
   (\<forall>cs (s :: 'a state).
      run cs init = Some s \<longrightarrow> p \<in> set (proxies s) \<longrightarrow> is_valid p \<longrightarrow>
        (\<exists>a ob. operator_deref p = Returns a \<and> operator_arrow p = Returns a \<and>
                objs (heap s) a = Some ob))"
proof (intro conjI allI impI)
  show "operator_deref p =
      (case m_shptr p of None \<Rightarrow> Throws out_of_range | Some a \<Rightarrow> Returns a)"
    by (rule deref_eq)
  show "operator_arrow p =
      (case m_shptr p of None \<Rightarrow> Throws out_of_range | Some a \<Rightarrow> Returns a)"
    by (rule deref_eq)
  show "operator_deref (snd (move_ctor p)) = Throws out_of_range"
    by (simp add: deref_eq moved_from)
  show "operator_arrow (snd (move_ctor p)) = Throws out_of_range"
    by (simp add: deref_eq moved_from)
  fix cs and s :: "'a state"
  assume run: "run cs init = Some s" and pin: "p \<in> set (proxies s)" and v: "is_valid p"
  from v obtain a where a: "m_shptr p = Some a" by (auto simp: is_valid_def)
  from proxy_live[OF run_ok[OF run] pin a] a
  show "\<exists>a ob. operator_deref p = Returns a \<and> operator_arrow p = Returns a \<and>
                objs (heap s) a = Some ob"
    by (auto simp: deref_eq)
qed

theorem dereference_returns_or_throws_witness:
  "\<exists>s. run [Make_asyncshared (5::nat), Call 1 (TAsyncSharedAccessRequester (Some 0)) ptr] init = Some s \<and>
       TAsyncSharedPointer (Some 0) (unique_lock (Some 0) True) \<in> set (proxies s) \<and>
       is_valid (TAsyncSharedPointer (Some 0) (unique_lock (Some 0) True)) \<and>
       operator_deref (TAsyncSharedPointer (Some 0) (unique_lock (Some 0) True)) = Returns 0 \<and>
       operator_arrow (TAsyncSharedPointer (Some 0) (unique_lock (Some 0) True)) = Returns 0 \<and>
       (\<exists>ob. objs (heap s) 0 = Some ob) \<and>
       operator_deref (snd (move_ctor (TAsyncSharedPointer (Some 0) (unique_lock (Some 0) True))))
         = Throws out_of_range"
proof -
  obtain s where run: "run [Make_asyncshared (5::nat), Call 1 (TAsyncSharedAccessRequester (Some 0)) ptr] init = Some s"
    and pin: "TAsyncSharedPointer (Some 0) (unique_lock (Some 0) True) \<in> set (proxies s)"
    by (simp add: eval_simps)
  have v: "is_valid (TAsyncSharedPointer (Some 0) (unique_lock (Some 0) True))"
    by (simp add: is_valid_def)
  note T = dereference_returns_or_throws[of "TAsyncSharedPointer (Some 0) (unique_lock (Some 0) True)",
      where 'a = nat]
  from T have d: "operator_deref (TAsyncSharedPointer (Some 0) (unique_lock (Some 0) True)) = Returns 0"
    "operator_arrow (TAsyncSharedPointer (Some 0) (unique_lock (Some 0) True)) = Returns 0"
    "operator_deref (snd (move_ctor (TAsyncSharedPointer (Some 0) (unique_lock (Some 0) True))))
         = Throws out_of_range"
    by simp_all
  from T run pin v have "\<exists>a ob. operator_deref (TAsyncSharedPointer (Some 0) (unique_lock (Some 0) True))
      = Returns a \<and> objs (heap s) a = Some ob"
    by blast
  with d(1) have "\<exists>ob. objs (heap s) 0 = Some ob" by simp
  with run pin v d show ?thesis by blast
qed

text \<open>
  Claim C9. For every proxy class, \<^verbatim>\<open>operator bool\<close> returns false, without
  throwing, on the source of a move construction and on every other invalid proxy, and
  true on a valid one. Of the three public member functions it is the only one that
  returns on an invalid proxy: \<^verbatim>\<open>operator*\<close> and \<^verbatim>\<open>operator->\<close> throw.
  Destroying the source of a move, in whichever thread, returns and leaves the free store
  as it is. (A move
  construction takes the proxy as its argument, it is not called on it.)
\<close>

theorem validity_check_never_throws:
  "operator_bool (snd (move_ctor p)) = Returns False \<and>
   (is_valid p \<longrightarrow> operator_bool p = Returns True) \<and>
   (\<not> is_valid p \<longrightarrow>
      operator_bool p = Returns False \<and>
      operator_deref p = Throws out_of_range \<and>
      operator_arrow p = Throws out_of_range) \<and>
   (\<forall>t (h :: 'a heap). dtor t (snd (move_ctor p)) h = Returns h)"
  by (simp add: operator_bool_def operator_deref_def operator_arrow_def is_valid_def moved_from)

theorem validity_check_never_throws_witness:
  "is_valid (TAsyncSharedConstPointer (Some 0) (unique_lock (Some 0) True)) \<and>
   operator_bool (TAsyncSharedConstPointer (Some 0) (unique_lock (Some 0) True)) = Returns True \<and>
   snd (move_ctor (TAsyncSharedConstPointer (Some 0) (unique_lock (Some 0) True))) =
     TAsyncSharedConstPointer None (unique_lock None False) \<and>
   \<not> is_valid (TAsyncSharedConstPointer None (unique_lock None False)) \<and>
   operator_bool (TAsyncSharedConstPointer None (unique_lock None False)) = Returns False \<and>
   operator_deref (TAsyncSharedConstPointer None (unique_lock None False)) = Throws out_of_range \<and>
   operator_arrow (TAsyncSharedConstPointer None (unique_lock None False)) = Throws out_of_range"
proof -
  have v: "is_valid (TAsyncSharedConstPointer (Some 0) (unique_lock (Some 0) True))"
    and m: "snd (move_ctor (TAsyncSharedConstPointer (Some 0) (unique_lock (Some 0) True))) =
     TAsyncSharedConstPointer None (unique_lock None False)"
    and i: "\<not> is_valid (TAsyncSharedConstPointer None (unique_lock None False))"
    by (simp_all add: is_valid_def shared_ptr_move_def unique_lock_move_def)
  from validity_check_never_throws[of "TAsyncSharedConstPointer (Some 0) (unique_lock (Some 0) True)",
      where 'a = nat]
    validity_check_never_throws[of "TAsyncSharedConstPointer None (unique_lock None False)",
      where 'a = nat]
    v m i show ?thesis by simp
qed

lemma move_ctor_members:
  "m_shptr (fst (move_ctor p)) = m_shptr p"
  "m_unique_lock (fst (move_ctor p)) = m_unique_lock p"
  "m_shared_lock (fst (move_ctor p)) = m_shared_lock p"
  by (simp_all add: move_ctor_fst)

text \<open>
  Claim C6. Of the special member functions that make or change a proxy from a proxy,
  every proxy class has the move constructor only: copy construction, copy assignment and
  move assignment are deleted, and a program has no such step. Move construction gives
  the new proxy the source's cell pointer and lock member unchanged, and leaves the source
  without cell and without lock: the source holds neither side of any mutex, dereferencing
  it throws, and destroying it, in whichever thread, changes nothing. A move step in a
  reachable state leaves the free store, the number of holders of each side of every mutex
  and every reference count as they were. So in every reachable state at most one live
  proxy owns a \<^verbatim>\<open>unique_lock\<close> on the mutex of a cell, and only while a thread
  owns that mutex exclusively; and the mutex has as many shared owners as live proxies own
  a \<^verbatim>\<open>shared_lock\<close> on it.

  The destructor of the new proxy is the one that unlocks. The mutex stays owned by the
  thread \<open>t0\<close> that locked it, whichever thread made the move: while a requester of the
  cell is alive, the new proxy can be destroyed in any thread \<open>t\<close>, and its destruction
  releases the mutex when \<open>t\<close> is \<open>t0\<close> and leaves it owned by \<open>t0\<close> otherwise.
\<close>

theorem move_transfers_the_lock:
  "proxy_special_member move_constructor p = Some (move_ctor p) \<and>
   proxy_special_member copy_constructor p = None \<and>
   proxy_special_member copy_assignment p = None \<and>
   proxy_special_member move_assignment p = None \<and>
   m_shptr (fst (move_ctor p)) = m_shptr p \<and>
   m_unique_lock (fst (move_ctor p)) = m_unique_lock p \<and>
   m_shared_lock (fst (move_ctor p)) = m_shared_lock p \<and>
   m_shptr (snd (move_ctor p)) = None \<and>
   (\<forall>a. \<not> holds_exclusive (snd (move_ctor p)) a \<and> \<not> holds_shared (snd (move_ctor p)) a) \<and>
   operator_deref (snd (move_ctor p)) = Throws out_of_range \<and>
   (\<forall>t (h :: 'a heap). dtor t (snd (move_ctor p)) h = Returns h) \<and>
   (\<forall>cs (s :: 'a state).
      run cs init = Some s \<longrightarrow>
        (\<forall>a. exclusive_holders s a \<le> 1) \<and>
        (\<forall>a ob. objs (heap s) a = Some ob \<longrightarrow>
           (0 < exclusive_holders s a \<longrightarrow> (\<exists>t0. exclusive_owner (m_mutex1 ob) = Some t0)) \<and>
           shared_holders s a = shared_owners (m_mutex1 ob)) \<and>
        (\<forall>m s'. step (Special_member m p) s = Some s' \<longrightarrow> m = move_constructor) \<and>
        (p \<in> set (proxies s) \<longrightarrow>
           (\<exists>s'. step (Special_member move_constructor p) s = Some s' \<and> heap s' = heap s \<and>
              proxies s' = fst (move_ctor p) # snd (move_ctor p) # remove1 p (proxies s) \<and>
              is_valid (fst (move_ctor p)) = is_valid p \<and>
              (\<forall>a. exclusive_holders s' a = exclusive_holders s a \<and>
                   shared_holders s' a = shared_holders s a \<and> refs s' a = refs s a) \<and>
              (\<forall>a r. holds_exclusive p a \<and> r \<in> set (requesters s) \<and>
                     requester_m_shptr r = Some a \<longrightarrow>
                 (\<exists>ob t0. objs (heap s') a = Some ob \<and>
                    exclusive_owner (m_mutex1 ob) = Some t0 \<and>
                    (\<forall>t. \<exists>s''. step (Destroy_proxy t (fst (move_ctor p))) s' = Some s'' \<and>
                       objs (heap s'') a =
                         Some (ob\<lparr>m_mutex1 :=
                                 (if t = t0 then (m_mutex1 ob)\<lparr>exclusive_owner := None\<rparr>
                                  else m_mutex1 ob)\<rparr>)))))))"
proof (intro conjI allI impI)
  show "operator_deref (snd (move_ctor p)) = Throws out_of_range"
    by (simp add: deref_eq moved_from)
next
  fix cs and s :: "'a state" and a
  assume run: "run cs init = Some s"
  from exclusive_holders_le_1[OF run_ok[OF run]] show "exclusive_holders s a \<le> 1" .
next
  fix cs and s :: "'a state" and a ob
  assume run: "run cs init = Some s" and ob: "objs (heap s) a = Some ob"
  note m = mutex_reflects_holders[OF run_ok[OF run] ob]
  from m(2) show "shared_holders s a = shared_owners (m_mutex1 ob)" by simp
  assume "0 < exclusive_holders s a"
  from m(1)[OF this] show "\<exists>t0. exclusive_owner (m_mutex1 ob) = Some t0" .
next
  fix cs and s s' :: "'a state" and m
  assume "step (Special_member m p) s = Some s'"
  from step_Special_member(1)[OF this] show "m = move_constructor" .
next
  fix cs and s :: "'a state"
  assume run: "run cs init = Some s" and pin: "p \<in> set (proxies s)"
  define s1 where "s1 = s\<lparr>proxies := remove1 p (proxies s)\<rparr>"
  define s2 where "s2 = s1\<lparr>proxies := snd (move_ctor p) # proxies s1\<rparr>"
  define s' where "s' = s\<lparr>proxies := p # snd (move_ctor p) # remove1 p (proxies s)\<rparr>"
  have s1: "proxies s1 = remove1 p (proxies s)" "requesters s1 = requesters s"
    by (simp_all add: s1_def)
  have s2: "proxies s2 = snd (move_ctor p) # proxies s1" "requesters s2 = requesters s1"
    by (simp_all add: s2_def)
  have s': "proxies s' = p # proxies s2" "requesters s' = requesters s2"
    by (simp_all add: s'_def s2_def s1_def move_ctor_fst)
  note cnt = remove_proxy_counts[OF pin s1] add_proxy_counts[OF s2] add_proxy_counts[OF s']
  have counts: "exclusive_holders s' a = exclusive_holders s a \<and>
        shared_holders s' a = shared_holders s a \<and> refs s' a = refs s a" for a
    using cnt[of a] by (simp add: refs_def moved_from)
  from pin have st: "step (Special_member move_constructor p) s = Some s'"
    by (cases "move_ctor p") (use move_ctor_fst[of p] in \<open>simp add: s'_def\<close>)
  from step_ok[OF run_ok[OF run] st] have ok': "state_ok s'" .
  have pin': "p \<in> set (proxies s')" by (simp add: s')
  have rs': "requesters s' = requesters s" by (simp add: s'_def)
  have destroy: "\<exists>ob t0. objs (heap s') a = Some ob \<and>
                    exclusive_owner (m_mutex1 ob) = Some t0 \<and>
                    (\<forall>t. \<exists>s''. step (Destroy_proxy t (fst (move_ctor p))) s' = Some s'' \<and>
                       objs (heap s'') a =
                         Some (ob\<lparr>m_mutex1 :=
                                 (if t = t0 then (m_mutex1 ob)\<lparr>exclusive_owner := None\<rparr>
                                  else m_mutex1 ob)\<rparr>))"
    if "holds_exclusive p a \<and> r \<in> set (requesters s) \<and> requester_m_shptr r = Some a" for a r
  proof -
    from that rs' have he: "holds_exclusive p a" and rin: "r \<in> set (requesters s')"
      and ra: "requester_m_shptr r = Some a" by simp_all
    from destroy_exclusive_holder[OF ok' pin' he rin ra] show ?thesis
      unfolding move_ctor_fst by blast
  qed
  have hp: "heap s' = heap s"
    and pp: "proxies s' = fst (move_ctor p) # snd (move_ctor p) # remove1 p (proxies s)"
    and vv: "is_valid (fst (move_ctor p)) = is_valid p"
    by (simp_all add: s'_def move_ctor_fst)
  from st hp pp vv counts destroy
  show "\<exists>s'. step (Special_member move_constructor p) s = Some s' \<and> heap s' = heap s \<and>
              proxies s' = fst (move_ctor p) # snd (move_ctor p) # remove1 p (proxies s) \<and>
              is_valid (fst (move_ctor p)) = is_valid p \<and>
              (\<forall>a. exclusive_holders s' a = exclusive_holders s a \<and>
                   shared_holders s' a = shared_holders s a \<and> refs s' a = refs s a) \<and>
              (\<forall>a r. holds_exclusive p a \<and> r \<in> set (requesters s) \<and>
                     requester_m_shptr r = Some a \<longrightarrow>
                 (\<exists>ob t0. objs (heap s') a = Some ob \<and>
                    exclusive_owner (m_mutex1 ob) = Some t0 \<and>
                    (\<forall>t. \<exists>s''. step (Destroy_proxy t (fst (move_ctor p))) s' = Some s'' \<and>
                       objs (heap s'') a =
                         Some (ob\<lparr>m_mutex1 :=
                                 (if t = t0 then (m_mutex1 ob)\<lparr>exclusive_owner := None\<rparr>
                                  else m_mutex1 ob)\<rparr>))))"
    by (intro exI[of _ s'] conjI allI impI) blast+
qed (simp_all add: move_ctor_members moved_from)


theorem move_transfers_the_lock_witness:
  "\<exists>s s'. run [Make_asyncshared (5::nat), Call 1 (TAsyncSharedAccessRequester (Some 0)) ptr] init
             = Some s \<and>
      proxies s = [TAsyncSharedPointer (Some 0) (unique_lock (Some 0) True)] \<and>
      step (Special_member copy_constructor
              (TAsyncSharedPointer (Some 0) (unique_lock (Some 0) True))) s = None \<and>
      step (Special_member copy_assignment
              (TAsyncSharedPointer (Some 0) (unique_lock (Some 0) True))) s = None \<and>
      step (Special_member move_assignment
              (TAsyncSharedPointer (Some 0) (unique_lock (Some 0) True))) s = None \<and>
      step (Special_member move_constructor
              (TAsyncSharedPointer (Some 0) (unique_lock (Some 0) True))) s = Some s' \<and>
      heap s' = heap s \<and>
      proxies s' = [TAsyncSharedPointer (Some 0) (unique_lock (Some 0) True),
                    TAsyncSharedPointer None (unique_lock None False)] \<and>
      exclusive_holders s' 0 = 1 \<and>
      operator_deref (TAsyncSharedPointer None (unique_lock None False)) = Throws out_of_range \<and>
      (\<exists>s''. step (Destroy_proxy 1 (TAsyncSharedPointer (Some 0) (unique_lock (Some 0) True))) s' =
                Some s'' \<and>
         objs (heap s'') 0 =
           Some \<lparr>base = 5, m_mutex1 = \<lparr>exclusive_owner = None, shared_owners = 0\<rparr>\<rparr>) \<and>
      (\<exists>s''. step (Destroy_proxy 2 (TAsyncSharedPointer (Some 0) (unique_lock (Some 0) True))) s' =
                Some s'' \<and>
         objs (heap s'') 0 =
           Some \<lparr>base = 5, m_mutex1 = \<lparr>exclusive_owner = Some 1, shared_owners = 0\<rparr>\<rparr>)"
proof -
  define P where "P = TAsyncSharedPointer (Some 0) (unique_lock (Some 0) True)"
  define R where "R = TAsyncSharedAccessRequester (Some 0)"
  obtain s where run: "run [Make_asyncshared (5::nat), Call 1 R ptr] init = Some s"
    and ps: "proxies s = [P]"
    and rs: "requesters s = [R]"
    and hs: "objs (heap s) 0 =
       Some \<lparr>base = 5, m_mutex1 = \<lparr>exclusive_owner = Some 1, shared_owners = 0\<rparr>\<rparr>"
    by (simp add: eval_simps P_def R_def)
  have m: "move_ctor P = (P, TAsyncSharedPointer None (unique_lock None False))"
    by (simp add: P_def shared_ptr_move_def unique_lock_move_def)
  from ps have pin: "P \<in> set (proxies s)"
    and e: "exclusive_holders s 0 = 1"
    by (simp_all add: exclusive_holders_def holds_exclusive_def P_def)
  have pre: "holds_exclusive P 0 \<and> R \<in> set (requesters s) \<and> requester_m_shptr R = Some 0"
    by (simp add: rs holds_exclusive_def P_def R_def)
  note T = move_transfers_the_lock[of P, where 'a = nat]
  note T10 = T[THEN conjunct2, THEN conjunct2, THEN conjunct2, THEN conjunct2, THEN conjunct2,
      THEN conjunct2, THEN conjunct2, THEN conjunct2, THEN conjunct2]
  from T10[THEN conjunct1]
  have d: "operator_deref (TAsyncSharedPointer None (unique_lock None False)) =
      Throws out_of_range" unfolding m by simp
  note Rn = T10[THEN conjunct2, THEN conjunct2, THEN spec, THEN spec, THEN mp, OF run]
  note only = Rn[THEN conjunct2, THEN conjunct2, THEN conjunct1, rule_format]
  have no: "step (Special_member copy_constructor P) s = None"
    "step (Special_member copy_assignment P) s = None"
    "step (Special_member move_assignment P) s = None"
  proof -
    show "step (Special_member copy_constructor P) s = None"
    proof (cases "step (Special_member copy_constructor P) s")
      case (Some s') from only[OF this] show ?thesis by simp
    qed
    show "step (Special_member copy_assignment P) s = None"
    proof (cases "step (Special_member copy_assignment P) s")
      case (Some s') from only[OF this] show ?thesis by simp
    qed
    show "step (Special_member move_assignment P) s = None"
    proof (cases "step (Special_member move_assignment P) s")
      case (Some s') from only[OF this] show ?thesis by simp
    qed
  qed
  from Rn[THEN conjunct2, THEN conjunct2, THEN conjunct2, THEN mp, OF pin]
  obtain s' where st: "step (Special_member move_constructor P) s = Some s'"
    and hp: "heap s' = heap s"
    and pp: "proxies s' = fst (move_ctor P) # snd (move_ctor P) # remove1 P (proxies s)"
    and cnt: "\<forall>a. exclusive_holders s' a = exclusive_holders s a \<and>
                   shared_holders s' a = shared_holders s a \<and> refs s' a = refs s a"
    and destroy: "\<forall>a r. holds_exclusive P a \<and> r \<in> set (requesters s) \<and>
                     requester_m_shptr r = Some a \<longrightarrow>
                 (\<exists>ob t0. objs (heap s') a = Some ob \<and>
                    exclusive_owner (m_mutex1 ob) = Some t0 \<and>
                    (\<forall>t. \<exists>s''. step (Destroy_proxy t (fst (move_ctor P))) s' = Some s'' \<and>
                       objs (heap s'') a =
                         Some (ob\<lparr>m_mutex1 :=
                                 (if t = t0 then (m_mutex1 ob)\<lparr>exclusive_owner := None\<rparr>
                                  else m_mutex1 ob)\<rparr>)))"
    by blast
  from pp ps have pp': "proxies s' = [P, TAsyncSharedPointer None (unique_lock None False)]"
    by (simp add: m)
  from cnt e have e': "exclusive_holders s' 0 = 1" by simp
  from destroy[THEN spec, THEN spec, THEN mp, OF pre] obtain ob t0
    where ob: "objs (heap s') 0 = Some ob"
      and t0: "exclusive_owner (m_mutex1 ob) = Some t0"
      and dd: "\<And>t. \<exists>s''. step (Destroy_proxy t (fst (move_ctor P))) s' = Some s'' \<and>
                       objs (heap s'') 0 =
                         Some (ob\<lparr>m_mutex1 :=
                                 (if t = t0 then (m_mutex1 ob)\<lparr>exclusive_owner := None\<rparr>
                                  else m_mutex1 ob)\<rparr>)"
    by blast
  from ob hs hp have obv: "ob = \<lparr>base = 5, m_mutex1 = \<lparr>exclusive_owner = Some 1, shared_owners = 0\<rparr>\<rparr>"
    by simp
  with t0 have t01: "t0 = 1" by simp
  from dd[of 1] have d1: "\<exists>s''. step (Destroy_proxy 1 P) s' = Some s'' \<and>
         objs (heap s'') 0 =
           Some \<lparr>base = 5, m_mutex1 = \<lparr>exclusive_owner = None, shared_owners = 0\<rparr>\<rparr>"
    by (simp add: m obv t01)
  from dd[of 2] have d2: "\<exists>s''. step (Destroy_proxy 2 P) s' = Some s'' \<and>
         objs (heap s'') 0 =
           Some \<lparr>base = 5, m_mutex1 = \<lparr>exclusive_owner = Some 1, shared_owners = 0\<rparr>\<rparr>"
    by (simp add: m obv t01)
  from run ps no st hp pp' e' d d1 d2 show ?thesis
    unfolding P_def R_def by blast
qed

section \<open>Cells made by the immutable factory\<close>

lemma in_remove1D: "x \<in> set (remove1 y xs) \<Longrightarrow> x \<in> set xs"
  using notin_set_remove1 by fastforce

lemma call_classes:
  assumes "call t r f h = Some (Returns (p, h'))"
  shows "m_shptr p = requester_m_shptr r" and "next_addr h' = next_addr h"
    and "r = TAsyncSharedImmutableAccessRequester sp \<Longrightarrow>
           f = const_ptr \<and> (\<exists>l. p = TAsyncSharedImmutableConstPointer sp l)"
  using assms
  by (cases r; cases f;
      auto simp: by_value_def ctor_defs and_then_def shared_ptr_copy_def shared_ptr_dtor_def
        unique_lock_ctor_def shared_lock_ctor_def Let_def
        split: result.splits option.splits if_splits)+

lemma next_addr_dtor [simp]: "next_addr (shared_ptr_dtor sp h) = next_addr h"
  by (simp add: shared_ptr_dtor_def Let_def split: option.splits)

lemma next_addr_copy [simp]: "next_addr (shared_ptr_copy sp h) = next_addr h"
  by (simp add: shared_ptr_copy_def split: option.splits)

lemma dtor_next_addr: "dtor t p h = Returns h' \<Longrightarrow> next_addr h' = next_addr h"
  by (cases p)
     (auto simp: and_then_def unique_lock_dtor_def shared_lock_dtor_def
        split: result.splits option.splits if_splits)


lemma step_members:
  assumes st: "step c s = Some s'"
  shows "next_addr (heap s) \<le> next_addr (heap s')"
    and "\<forall>r' \<in> set (requesters s').
           r' \<in> set (requesters s) \<or> requester_m_shptr r' = Some (next_addr (heap s))"
    and "\<forall>p' \<in> set (proxies s').
           p' \<in> set (proxies s) \<or> m_shptr p' = None \<or>
           (\<exists>r \<in> set (requesters s). \<exists>t f h'. call t r f (heap s) = Some (Returns (p', h')))"
proof -
  have "next_addr (heap s) \<le> next_addr (heap s') \<and>
        (\<forall>r' \<in> set (requesters s').
           r' \<in> set (requesters s) \<or> requester_m_shptr r' = Some (next_addr (heap s))) \<and>
        (\<forall>p' \<in> set (proxies s').
           p' \<in> set (proxies s) \<or> m_shptr p' = None \<or>
           (\<exists>r \<in> set (requesters s). \<exists>t f h'. call t r f (heap s) = Some (Returns (p', h'))))"
  proof (cases c)
    case (Call t r f)
    with st obtain p h' where rin: "r \<in> set (requesters s)"
      and c: "call t r f (heap s) = Some (Returns (p, h'))"
      and s': "heap s' = h'" "proxies s' = p # proxies s" "requesters s' = requesters s"
      by (auto split: if_splits option.splits result.splits)
    from call_classes[OF c] have "next_addr h' = next_addr (heap s)" by simp
    with rin c show ?thesis unfolding s' by auto
  next
    case (Special_member m p)
    with st have "step (Special_member m p) s = Some s'" by simp
    from step_Special_member(2,3)[OF this] have pin: "p \<in> set (proxies s)"
      and s': "heap s' = heap s" "requesters s' = requesters s"
        "proxies s' = p # snd (move_ctor p) # remove1 p (proxies s)"
      by simp_all
    from pin moved_from(1)[of p] show ?thesis
      unfolding s' by (auto dest: in_remove1D)
  next
    case (Destroy_proxy t p)
    with st obtain h' where d: "dtor t p (heap s) = Returns h'"
      and s': "heap s' = h'" "proxies s' = remove1 p (proxies s)" "requesters s' = requesters s"
      by (auto split: if_splits result.splits)
    from dtor_next_addr[OF d] show ?thesis
      unfolding s' by (auto dest: in_remove1D)
  next
    case (Make_asyncshared v)
    with st have s': "heap s' = allocate v (heap s)" "proxies s' = proxies s"
      "requesters s' = TAsyncSharedAccessRequester (Some (next_addr (heap s))) # requesters s"
      by (auto simp: add_requester_def factory_eqs)
    show ?thesis unfolding s' by (simp add: allocate_def)
  next
    case (Make_asyncsharedimmutable v)
    with st have s': "heap s' = allocate v (heap s)" "proxies s' = proxies s"
      "requesters s' = TAsyncSharedImmutableAccessRequester (Some (next_addr (heap s))) # requesters s"
      by (auto simp: add_requester_def factory_eqs)
    show ?thesis unfolding s' by (simp add: allocate_def)
  next
    case (Make_asyncsharedsimpleobjectyouaresurehasnomutablemembers v)
    with st have s': "heap s' = allocate v (heap s)" "proxies s' = proxies s"
      "requesters s' = TAsyncSharedSimpleObjectYouAreSureHasNoMutableMembersAccessRequester
                         (Some (next_addr (heap s))) # requesters s"
      by (auto simp: add_requester_def factory_eqs)
    show ?thesis unfolding s' by (simp add: allocate_def)
  next
    case (Make_asyncsharedsimpleobjectyouaresurehasnomutablemembersimmutable v)
    with st have s': "heap s' = allocate v (heap s)" "proxies s' = proxies s"
      "requesters s' = TAsyncSharedSimpleObjectYouAreSureHasNoMutableMembersImmutableAccessRequester
                         (Some (next_addr (heap s))) # requesters s"
      by (auto simp: add_requester_def factory_eqs)
    show ?thesis unfolding s' by (simp add: allocate_def)
  next
    case (Copy_requester r)
    with st have rin: "r \<in> set (requesters s)"
      and s': "heap s' = shared_ptr_copy (requester_m_shptr r) (heap s)"
        "requesters s' = r # requesters s" "proxies s' = proxies s"
      by (auto simp: add_requester_def requester_copy_ctor_def split: if_splits)
    from rin show ?thesis unfolding s' by simp
  next
    case (Assign_requester dst src)
    with st have rin: "src \<in> set (requesters s)"
      and s': "heap s' = requester_copy_assign dst src (heap s)"
        "requesters s' = remove1 dst (src # requesters s)" "proxies s' = proxies s"
      by (auto split: if_splits)
    from rin show ?thesis
      unfolding s' requester_copy_assign_def by (auto dest!: in_remove1D)
  next
    case (Destroy_requester r)
    with st have rin: "r \<in> set (requesters s)"
      and s': "heap s' = shared_ptr_dtor (requester_m_shptr r) (heap s)"
        "requesters s' = remove1 r (requesters s)" "proxies s' = proxies s"
      by (auto simp: requester_dtor_def split: if_splits)
    show ?thesis unfolding s' by (auto dest: in_remove1D)
  qed
  then show "next_addr (heap s) \<le> next_addr (heap s')"
    and "\<forall>r' \<in> set (requesters s').
           r' \<in> set (requesters s) \<or> requester_m_shptr r' = Some (next_addr (heap s))"
    and "\<forall>p' \<in> set (proxies s').
           p' \<in> set (proxies s) \<or> m_shptr p' = None \<or>
           (\<exists>r \<in> set (requesters s). \<exists>t f h'. call t r f (heap s) = Some (Returns (p', h')))"
    by blast+
qed

lemma immutable_only_step:
  assumes io: "immutable_only s a" and st: "step c s = Some s'"
  shows "immutable_only s' a"
proof -
  note m = step_members[OF st]
  from io have lt: "a < next_addr (heap s)" by (simp add: immutable_only_def)
  have r: "case r' of TAsyncSharedImmutableAccessRequester sp \<Rightarrow> True | _ \<Rightarrow> False"
    if "r' \<in> set (requesters s')" and "requester_m_shptr r' = Some a" for r'
  proof -
    from m(2) that(1) lt that(2) have "r' \<in> set (requesters s)" by auto
    with io that(2) show ?thesis by (simp add: immutable_only_def)
  qed
  have p: "case p' of TAsyncSharedImmutableConstPointer sp l \<Rightarrow> True | _ \<Rightarrow> False"
    if "p' \<in> set (proxies s')" and "m_shptr p' = Some a" for p'
  proof -
    from m(3) that consider "p' \<in> set (proxies s)"
      | r t f h' where "r \<in> set (requesters s)" "call t r f (heap s) = Some (Returns (p', h'))"
      by auto
    then show ?thesis
    proof cases
      case 1
      with io that(2) show ?thesis by (simp add: immutable_only_def)
    next
      case 2
      from call_classes(1)[OF 2(2)] that(2) have "requester_m_shptr r = Some a" by simp
      with io 2(1) have "case r of TAsyncSharedImmutableAccessRequester sp \<Rightarrow> True | _ \<Rightarrow> False"
        by (simp add: immutable_only_def)
      then obtain sp where "r = TAsyncSharedImmutableAccessRequester sp" by (cases r) simp_all
      from call_classes(3)[OF 2(2) this] obtain l where
        "p' = TAsyncSharedImmutableConstPointer sp l" by blast
      then show ?thesis by simp
    qed
  qed
  from lt m(1) r p show ?thesis by (simp add: immutable_only_def)
qed

lemma immutable_only_run:
  "immutable_only s a \<Longrightarrow> run cs s = Some s' \<Longrightarrow> immutable_only s' a"
  by (induction cs arbitrary: s) (auto split: option.splits dest: immutable_only_step)

lemma fresh_unreferenced:
  assumes "state_ok s" and "next_addr (heap s) \<le> a"
  shows "\<forall>r \<in> set (requesters s). requester_m_shptr r \<noteq> Some a"
    and "\<forall>p \<in> set (proxies s). m_shptr p \<noteq> Some a"
proof -
  from assms have "requester_refs s a = 0" and "proxy_refs s a = 0"
    by (auto simp: state_ok_def cell_ok_def refs_def dest!: spec[where x=a])
  then show "\<forall>r \<in> set (requesters s). requester_m_shptr r \<noteq> Some a"
    and "\<forall>p \<in> set (proxies s). m_shptr p \<noteq> Some a"
    by (auto simp: count_defs filter_empty_conv)
qed

text \<open>
  Claim C7. \<^verbatim>\<open>TAsyncSharedImmutableAccessRequester\<close> has no \<^verbatim>\<open>ptr()\<close>,
  and its \<^verbatim>\<open>const_ptr()\<close> returns a \<^verbatim>\<open>TAsyncSharedImmutableConstPointer\<close>,
  which gives no mutable access, in whichever thread they are called. For the cell a call of
  \<^verbatim>\<open>make_asyncsharedimmutable\<close> creates in a reachable state, whatever the
  program does afterwards: every live requester that references the cell is a
  \<^verbatim>\<open>TAsyncSharedImmutableAccessRequester\<close>, and every live proxy that references
  it is a \<^verbatim>\<open>TAsyncSharedImmutableConstPointer\<close>.
\<close>

theorem immutable_cell_never_gets_mutable_proxy:
  assumes "run cs init = Some s"
    and "step (Make_asyncsharedimmutable v) s = Some s1"
    and "run cs' s1 = Some s2"
  shows "TAsyncSharedImmutableAccessRequester (Some (next_addr (heap s))) \<in> set (requesters s1) \<and>
         objs (heap s1) (next_addr (heap s)) \<noteq> None \<and>
         (\<forall>r \<in> set (requesters s2).
            requester_m_shptr r = Some (next_addr (heap s)) \<longrightarrow>
              r = TAsyncSharedImmutableAccessRequester (Some (next_addr (heap s)))) \<and>
         (\<forall>p \<in> set (proxies s2).
            m_shptr p = Some (next_addr (heap s)) \<longrightarrow>
              \<not> grants_mutable_access p \<and>
              (\<exists>l. p = TAsyncSharedImmutableConstPointer (Some (next_addr (heap s))) l)) \<and>
         (\<forall>t sp (h :: 'a heap). call t (TAsyncSharedImmutableAccessRequester sp) ptr h = None) \<and>
         (\<forall>t sp (h :: 'a heap) p h'.
            call t (TAsyncSharedImmutableAccessRequester sp) const_ptr h = Some (Returns (p, h')) \<longrightarrow>
              \<not> grants_mutable_access p \<and> (\<exists>l. p = TAsyncSharedImmutableConstPointer sp l))"
proof (intro conjI ballI impI allI)
  from assms(1) have ok: "state_ok s" by (rule run_ok)
  from assms(2) have s1: "heap s1 = allocate v (heap s)"
    "requesters s1 = TAsyncSharedImmutableAccessRequester (Some (next_addr (heap s))) # requesters s"
    "proxies s1 = proxies s"
    by (auto simp: add_requester_def factory_eqs)
  from s1(2) show "TAsyncSharedImmutableAccessRequester (Some (next_addr (heap s)))
      \<in> set (requesters s1)" by simp
  from s1(1) show "objs (heap s1) (next_addr (heap s)) \<noteq> None"
    by (simp add: allocate_def)
  note fresh = fresh_unreferenced[OF ok order_refl]
  have "immutable_only s1 (next_addr (heap s))"
    unfolding immutable_only_def s1
    using fresh by (simp add: allocate_def)
  from immutable_only_run[OF this assms(3)]
  have io: "immutable_only s2 (next_addr (heap s))" .
  {
    fix r assume r: "r \<in> set (requesters s2)" "requester_m_shptr r = Some (next_addr (heap s))"
    with io have "case r of TAsyncSharedImmutableAccessRequester sp \<Rightarrow> True | _ \<Rightarrow> False"
      by (simp add: immutable_only_def)
    with r(2) show "r = TAsyncSharedImmutableAccessRequester (Some (next_addr (heap s)))"
      by (cases r) simp_all
  }
  {
    fix p assume p: "p \<in> set (proxies s2)" "m_shptr p = Some (next_addr (heap s))"
    with io have c: "case p of TAsyncSharedImmutableConstPointer sp l \<Rightarrow> True | _ \<Rightarrow> False"
      by (simp add: immutable_only_def)
    from c show "\<not> grants_mutable_access p" by (cases p) simp_all
    from c p(2) show "\<exists>l. p = TAsyncSharedImmutableConstPointer (Some (next_addr (heap s))) l"
      by (cases p) simp_all
  }
  {
    fix t sp and h :: "'a heap"
    show "call t (TAsyncSharedImmutableAccessRequester sp) ptr h = None" by simp
  }
  fix t sp p and h h' :: "'a heap"
  assume "call t (TAsyncSharedImmutableAccessRequester sp) const_ptr h = Some (Returns (p, h'))"
  from call_classes(3)[OF this refl] obtain l where
    l: "p = TAsyncSharedImmutableConstPointer sp l" by blast
  then show "\<not> grants_mutable_access p" by simp
  from l show "\<exists>l. p = TAsyncSharedImmutableConstPointer sp l" by blast
qed


theorem immutable_cell_never_gets_mutable_proxy_witness:
  "\<exists>s1 s2. run [] init = Some (init :: nat state) \<and>
      step (Make_asyncsharedimmutable (5::nat)) init = Some s1 \<and>
      run [Call 1 (TAsyncSharedImmutableAccessRequester (Some 0)) const_ptr,
           Copy_requester (TAsyncSharedImmutableAccessRequester (Some 0))] s1 = Some s2 \<and>
      proxies s2 = [TAsyncSharedImmutableConstPointer (Some 0) (unique_lock (Some 0) True)] \<and>
      requesters s2 = [TAsyncSharedImmutableAccessRequester (Some 0),
                       TAsyncSharedImmutableAccessRequester (Some 0)] \<and>
      \<not> grants_mutable_access
           (TAsyncSharedImmutableConstPointer (Some 0) (unique_lock (Some 0) True)) \<and>
      step (Call 2 (TAsyncSharedImmutableAccessRequester (Some 0)) ptr) s2 = None"
proof -
  have r0: "run [] init = Some (init :: nat state)" by simp
  define s1 :: "nat state" where
    "s1 = add_requester init (make_asyncsharedimmutable 5 (heap init))"
  have st: "step (Make_asyncsharedimmutable 5) init = Some s1"
    by (simp add: s1_def)
  have h1: "heap s1 = allocate 5 (heap init)"
    and rs1: "requesters s1 = [TAsyncSharedImmutableAccessRequester (Some 0)]"
    and ps1: "proxies s1 = []"
    by (simp_all add: s1_def eval_simps)
  obtain s2 where run: "run [Call 1 (TAsyncSharedImmutableAccessRequester (Some 0)) const_ptr,
           Copy_requester (TAsyncSharedImmutableAccessRequester (Some 0))] s1 = Some s2"
    and ps2: "proxies s2 = [TAsyncSharedImmutableConstPointer (Some 0) (unique_lock (Some 0) True)]"
    and rs2: "requesters s2 = [TAsyncSharedImmutableAccessRequester (Some 0),
                       TAsyncSharedImmutableAccessRequester (Some 0)]"
    by (simp add: h1 rs1 ps1 eval_simps requester_copy_ctor_def)
  have n: "next_addr (heap (init :: nat state)) = 0" by (simp add: init_def)
  note T = immutable_cell_never_gets_mutable_proxy[OF r0 st run, unfolded n]
  from T ps2 have g: "\<not> grants_mutable_access
           (TAsyncSharedImmutableConstPointer (Some 0) (unique_lock (Some 0) True))"
    by simp
  from T rs2 have c: "step (Call 2 (TAsyncSharedImmutableAccessRequester (Some 0)) ptr) s2 = None"
    by simp
  from r0 st run ps2 rs2 g c show ?thesis by blast
qed

section \<open>Lifetime of a cell\<close>

text \<open>
  Claim C8. In every reachable state the use count of a cell is the number of live
  requesters and proxies that reference it; a cell that a live requester or proxy
  references is on the free store and has not been deleted; a cell that was allocated and
  that nothing references any more is gone from the free store and has been deleted
  exactly once; and no cell is ever deleted twice. Every live requester and every live
  proxy can be destroyed in every reachable state, a proxy in whichever thread, and the
  states range over all programs, so over every order of destruction and over every
  choice of the destroying threads.
\<close>

theorem cell_lives_while_referenced:
  assumes "run cs init = Some s"
  shows "use_count (heap s) a = refs s a \<and>
         (\<forall>r \<in> set (requesters s).
            requester_m_shptr r = Some a \<longrightarrow>
              objs (heap s) a \<noteq> None \<and> count_list (deleted (heap s)) a = 0) \<and>
         (\<forall>p \<in> set (proxies s).
            m_shptr p = Some a \<longrightarrow>
              objs (heap s) a \<noteq> None \<and> count_list (deleted (heap s)) a = 0) \<and>
         (a < next_addr (heap s) \<longrightarrow> refs s a = 0 \<longrightarrow>
            objs (heap s) a = None \<and> count_list (deleted (heap s)) a = 1) \<and>
         count_list (deleted (heap s)) a \<le> 1 \<and>
         (\<forall>r \<in> set (requesters s). step (Destroy_requester r) s \<noteq> None) \<and>
         (\<forall>p \<in> set (proxies s). \<forall>t. step (Destroy_proxy t p) s \<noteq> None)"
proof (intro conjI ballI impI allI)
  from assms have ok: "state_ok s" by (rule run_ok)
  then have c: "cell_ok s a" by (simp add: state_ok_def)
  from c show "use_count (heap s) a = refs s a" by (simp add: cell_ok_def)
  from c show "count_list (deleted (heap s)) a \<le> 1" by (simp add: cell_ok_def)
  {
    assume "a < next_addr (heap s)" and "refs s a = 0"
    with c show "objs (heap s) a = None" and "count_list (deleted (heap s)) a = 1"
      by (simp_all add: cell_ok_def)
  }
  {
    fix r assume "r \<in> set (requesters s)" and "requester_m_shptr r = Some a"
    then have "0 < requester_refs s a"
      unfolding requester_refs_def by (intro length_filter_pos[where x=r]) auto
    with c show "objs (heap s) a \<noteq> None" and "count_list (deleted (heap s)) a = 0"
      by (simp_all add: cell_ok_def refs_def)
  }
  {
    fix p assume "p \<in> set (proxies s)" and "m_shptr p = Some a"
    then have "0 < proxy_refs s a"
      unfolding proxy_refs_def by (intro length_filter_pos[where x=p]) auto
    with c show "objs (heap s) a \<noteq> None" and "count_list (deleted (heap s)) a = 0"
      by (simp_all add: cell_ok_def refs_def)
  }
  {
    fix r assume "r \<in> set (requesters s)"
    then show "step (Destroy_requester r) s \<noteq> None" by simp
  }
  fix p assume pin: "p \<in> set (proxies s)"
  with ok have pok: "proxy_ok p" by (simp add: state_ok_def)
  fix t
  show "step (Destroy_proxy t p) s \<noteq> None"
  proof (cases "m_shptr p")
    case None
    from dtor_invalid[OF pok None, where h = "heap s" and t = t] pin show ?thesis by simp
  next
    case (Some x)
    from proxy_live[OF ok pin Some] obtain ob where "objs (heap s) x = Some ob" by blast
    from destroy_holder[OF ok pin Some this, of t]
    obtain s' where "step (Destroy_proxy t p) s = Some s'"
      by blast
    then show ?thesis by (simp only: option.distinct not_False_eq_True)
  qed
qed

theorem cell_lives_while_referenced_witness:
  "\<exists>s s'. run [Make_asyncshared (5::nat),
                Copy_requester (TAsyncSharedAccessRequester (Some 0)),
                Call 1 (TAsyncSharedAccessRequester (Some 0)) ptr,
                Destroy_requester (TAsyncSharedAccessRequester (Some 0)),
                Destroy_requester (TAsyncSharedAccessRequester (Some 0))] init = Some s \<and>
      requesters s = [] \<and>
      proxies s = [TAsyncSharedPointer (Some 0) (unique_lock (Some 0) True)] \<and>
      use_count (heap s) 0 = 1 \<and> objs (heap s) 0 \<noteq> None \<and> deleted (heap s) = [] \<and>
      run [Make_asyncshared (5::nat),
           Copy_requester (TAsyncSharedAccessRequester (Some 0)),
           Call 1 (TAsyncSharedAccessRequester (Some 0)) ptr,
           Destroy_requester (TAsyncSharedAccessRequester (Some 0)),
           Destroy_requester (TAsyncSharedAccessRequester (Some 0)),
           Destroy_proxy 2 (TAsyncSharedPointer (Some 0) (unique_lock (Some 0) True))] init
        = Some s' \<and>
      requesters s' = [] \<and> proxies s' = [] \<and>
      use_count (heap s') 0 = 0 \<and> objs (heap s') 0 = None \<and> deleted (heap s') = [0]"
proof -
  obtain s where run: "run [Make_asyncshared (5::nat),
                Copy_requester (TAsyncSharedAccessRequester (Some 0)),
                Call 1 (TAsyncSharedAccessRequester (Some 0)) ptr,
                Destroy_requester (TAsyncSharedAccessRequester (Some 0)),
                Destroy_requester (TAsyncSharedAccessRequester (Some 0))] init = Some s"
    and rs: "requesters s = []"
    and ps: "proxies s = [TAsyncSharedPointer (Some 0) (unique_lock (Some 0) True)]"
    and d: "deleted (heap s) = []"
    by (simp add: eval_simps requester_copy_ctor_def requester_dtor_def shared_ptr_copy_def
          shared_ptr_dtor_def)
  from ps have r1: "refs s 0 = 1"
    by (simp add: refs_def count_defs rs)
  from cell_lives_while_referenced[OF run, of 0] ps r1
  have live: "objs (heap s) 0 \<noteq> None" "use_count (heap s) 0 = 1" by simp_all
  obtain s' where run': "run [Make_asyncshared (5::nat),
           Copy_requester (TAsyncSharedAccessRequester (Some 0)),
           Call 1 (TAsyncSharedAccessRequester (Some 0)) ptr,
           Destroy_requester (TAsyncSharedAccessRequester (Some 0)),
           Destroy_requester (TAsyncSharedAccessRequester (Some 0)),
           Destroy_proxy 2 (TAsyncSharedPointer (Some 0) (unique_lock (Some 0) True))] init
        = Some s'"
    and rs': "requesters s' = []" and ps': "proxies s' = []"
    and d': "deleted (heap s') = [0]" and n': "next_addr (heap s') = 1"
    by (simp add: eval_simps requester_copy_ctor_def requester_dtor_def shared_ptr_copy_def
          shared_ptr_dtor_def unique_lock_dtor_def)
  have r0: "refs s' 0 = 0" by (simp add: refs_def count_defs rs' ps')
  from cell_lives_while_referenced[OF run', of 0] r0 d' n'
  have dead: "use_count (heap s') 0 = 0" "objs (heap s') 0 = None" by simp_all
  from run rs ps live d run' rs' ps' dead d' show ?thesis by blast
qed

end

